theory Spec2Isabelle
  imports Complex_Main "HOL-Library.AList"
begin

section \<open>Python strings\<close>

text \<open>
  A Python \<open>str\<close> is modelled as a \<open>string\<close>, one \<open>char\<close> per code point, so the
  alphabet is U+0000 .. U+00FF. The functions below are the \<open>str\<close> methods the four
  scripts call, with Python's results on that alphabet.
\<close>

definition py_isspace :: "char \<Rightarrow> bool" where
  \<comment> \<open>\<open>str.isspace\<close> on one character: tab, LF, VT, FF, CR, FS, GS, RS, US, space, NEL, NBSP\<close>
  "py_isspace c = (of_char c \<in> set [9, 10, 11, 12, 13, 28, 29, 30, 31, 32, 133, 160 :: nat])"

definition lstrip :: "string \<Rightarrow> string" where
  "lstrip s = dropWhile py_isspace s"

definition rstrip :: "string \<Rightarrow> string" where
  "rstrip s = rev (dropWhile py_isspace (rev s))"

definition strip :: "string \<Rightarrow> string" where
  "strip s = rstrip (lstrip s)"

definition lower_char :: "char \<Rightarrow> char" where
  \<comment> \<open>A..Z and the upper-case letters of Latin-1 (U+00D7 is the multiplication sign)\<close>
  "lower_char c =
     (let n = (of_char c :: nat)
      in if (65 \<le> n \<and> n \<le> 90) \<or> (192 \<le> n \<and> n \<le> 222 \<and> n \<noteq> 215)
         then char_of (n + 32) else c)"

definition lower :: "string \<Rightarrow> string" where
  "lower s = map lower_char s"

definition startswith :: "string \<Rightarrow> string \<Rightarrow> bool" where
  \<comment> \<open>\<open>s.startswith(p)\<close>\<close>
  "startswith s p = (take (length p) s = p)"

fun contains :: "string \<Rightarrow> string \<Rightarrow> bool" where
  \<comment> \<open>\<open>sub in s\<close>\<close>
  "contains [] sub = (sub = [])"
| "contains (x # xs) sub = (startswith (x # xs) sub \<or> contains xs sub)"

fun split_acc :: "char \<Rightarrow> string \<Rightarrow> string \<Rightarrow> string list" where
  "split_acc sep acc [] = [rev acc]"
| "split_acc sep acc (x # xs) =
     (if x = sep then rev acc # split_acc sep [] xs else split_acc sep (x # acc) xs)"

definition split_on :: "char \<Rightarrow> string \<Rightarrow> string list" where
  \<comment> \<open>\<open>s.split(sep)\<close> for a one-character separator: \<open>''''.split(sep) = ['''']\<close>\<close>
  "split_on sep s = split_acc sep [] s"

fun words_acc :: "string \<Rightarrow> string \<Rightarrow> string list" where
  "words_acc acc [] = (if acc = [] then [] else [rev acc])"
| "words_acc acc (x # xs) =
     (if py_isspace x then (if acc = [] then words_acc [] xs else rev acc # words_acc [] xs)
      else words_acc (x # acc) xs)"

definition split_ws :: "string \<Rightarrow> string list" where
  \<comment> \<open>\<open>s.split()\<close>: the maximal runs of non-whitespace\<close>
  "split_ws s = words_acc [] s"

fun join :: "string \<Rightarrow> string list \<Rightarrow> string" where
  \<comment> \<open>\<open>sep.join(xs)\<close>\<close>
  "join sep [] = []"
| "join sep [x] = x"
| "join sep (x # y # ys) = x @ sep @ join sep (y # ys)"

fun replace_from :: "string \<Rightarrow> string \<Rightarrow> nat \<Rightarrow> string \<Rightarrow> string" where
  \<comment> \<open>left to right; \<open>skip\<close> characters of a match just replaced are still to be passed\<close>
  "replace_from old new skip [] = []"
| "replace_from old new skip (x # xs) =
     (if 0 < skip then replace_from old new (skip - 1) xs
      else if startswith (x # xs) old then new @ replace_from old new (length old - 1) xs
      else x # replace_from old new 0 xs)"

definition replace :: "string \<Rightarrow> string \<Rightarrow> string \<Rightarrow> string" where
  \<comment> \<open>\<open>s.replace(old, new)\<close>: every non-overlapping occurrence, leftmost first; an
      empty \<open>old\<close> matches before every character and at the end\<close>
  "replace s old new =
     (if old = [] then new @ concat (map (\<lambda>c. c # new) s) else replace_from old new 0 s)"

definition digit_char :: "nat \<Rightarrow> char" where
  "digit_char d = char_of (48 + d)"

fun show_nat :: "nat \<Rightarrow> string" where
  \<comment> \<open>\<open>str(n)\<close> for a non-negative integer\<close>
  "show_nat n = (if n < 10 then [digit_char n] else show_nat (n div 10) @ [digit_char (n mod 10)])"

declare show_nat.simps [simp del]

section \<open>Python values, files and the process state\<close>

text \<open>
  The values that \<open>json.load\<close> returns and \<open>json.dump\<close> accepts. A \<open>dict\<close> keeps its
  keys in insertion order, so it is an association list; finite floats are rationals.
\<close>

datatype pyval =
    PNone
  | PBool bool
  | PInt int
  | PFloat rat
  | PStr string
  | PList "pyval list"
  | PDict "(string \<times> pyval) list"

type_synonym pydict = "(string \<times> pyval) list"

definition dict_set :: "string \<Rightarrow> pyval \<Rightarrow> pydict \<Rightarrow> pydict" where
  \<comment> \<open>\<open>d[k] = v\<close>: an existing key keeps its place, a new one goes last\<close>
  "dict_set k v d = AList.update k v d"

definition dict_get :: "pydict \<Rightarrow> string \<Rightarrow> pyval \<Rightarrow> pyval" where
  \<comment> \<open>\<open>d.get(k, default)\<close>\<close>
  "dict_get d k dflt = (case map_of d k of None \<Rightarrow> dflt | Some v \<Rightarrow> v)"

fun truthy :: "pyval \<Rightarrow> bool" where
  \<comment> \<open>\<open>bool(v)\<close>\<close>
  "truthy PNone = False"
| "truthy (PBool b) = b"
| "truthy (PInt i) = (i \<noteq> 0)"
| "truthy (PFloat r) = (r \<noteq> 0)"
| "truthy (PStr s) = (s \<noteq> [])"
| "truthy (PList xs) = (xs \<noteq> [])"
| "truthy (PDict kvs) = (kvs \<noteq> [])"

datatype exn =
    ImportError string
  | UnicodeDecodeError string
  | OSError string
  | OtherError string

fun exn_msg :: "exn \<Rightarrow> string" where
  \<comment> \<open>\<open>str(e)\<close>\<close>
  "exn_msg (ImportError m) = m"
| "exn_msg (UnicodeDecodeError m) = m"
| "exn_msg (OSError m) = m"
| "exn_msg (OtherError m) = m"

text \<open>An image as PIL holds it: mode, width, height and the pixel data (opaque).\<close>

datatype image = Image (mode: string) (width: nat) (height: nat) (pixels: nat)

text \<open>
  What a path holds. A file written by one of the scripts is kept with the structure it
  was written with: the text passed to \<open>write\<close>, the value passed to \<open>json.dump\<close>,
  the image passed to \<open>save(..., 'JPEG')\<close>. Any other file is a blob.
\<close>

datatype content =
    Directory
  | TextFile string
  | JsonFile pyval
  | JpegFile image
  | Blob nat

type_synonym path = string

text \<open>
  The state of a run: the file system (paths are compared as strings), the lines printed
  to standard output, and how many times \<open>pip3 install\<close> has been run.
\<close>

record world =
  files :: "path \<rightharpoonup> content"
  stdout :: "string list"
  pip_runs :: nat

definition say :: "string \<Rightarrow> world \<Rightarrow> world" where
  \<comment> \<open>\<open>print(line)\<close>\<close>
  "say line w = w\<lparr>stdout := stdout w @ [line]\<rparr>"

definition pip_install :: "world \<Rightarrow> world" where
  \<comment> \<open>\<open>os.system("pip3 install ...")\<close>; its exit status is not looked at\<close>
  "pip_install w = w\<lparr>pip_runs := Suc (pip_runs w)\<rparr>"

definition path_exists :: "world \<Rightarrow> path \<Rightarrow> bool" where
  \<comment> \<open>\<open>os.path.exists(p)\<close>\<close>
  "path_exists w p = (files w p \<noteq> None)"

definition dirname :: "path \<Rightarrow> path" where
  \<comment> \<open>\<open>os.path.dirname\<close> (posixpath): up to the last slash, without trailing slashes
      unless it is slashes only\<close>
  "dirname p =
     (let head = rev (dropWhile (\<lambda>c. c \<noteq> CHR ''/'') (rev p))
      in if head \<noteq> [] \<and> \<not> list_all (\<lambda>c. c = CHR ''/'') head
         then rev (dropWhile (\<lambda>c. c = CHR ''/'') (rev head)) else head)"

definition path_name :: "path \<Rightarrow> string" where
  \<comment> \<open>\<open>Path(p).name\<close>: the last component, empty and \<open>.\<close> components dropped\<close>
  "path_name p =
     (case rev (filter (\<lambda>part. part \<noteq> [] \<and> part \<noteq> ''.'') (split_on CHR ''/'' p)) of
        [] \<Rightarrow> [] | last_part # _ \<Rightarrow> last_part)"

definition suffix :: "path \<Rightarrow> string" where
  \<comment> \<open>\<open>Path(p).suffix\<close>: from the last dot of the name, when that dot is neither the
      first nor the last character of the name\<close>
  "suffix p =
     (let name = path_name p;
          after = rev (takeWhile (\<lambda>c. c \<noteq> CHR ''.'') (rev name))
      in if CHR ''.'' \<in> set name \<and> after \<noteq> [] \<and> Suc (length after) < length name
         then CHR ''.'' # after else [])"

section \<open>The operating system and the libraries\<close>

text \<open>
  What the scripts ask of the system is a parameter of the model: whether a directory
  can be made or a file opened, and how the bytes of a file that was not written as
  text decode. \<open>None\<close> stands for no error.
\<close>

record sys_env =
  mkdir_error :: "path \<Rightarrow> exn option"
  open_w_error :: "path \<Rightarrow> exn option"
  open_r_error :: "path \<Rightarrow> exn option"
  utf8_text :: "content \<Rightarrow> string option"
  latin1_text :: "content \<Rightarrow> string"

definition makedirs :: "'a sys_env_scheme \<Rightarrow> path \<Rightarrow> world \<Rightarrow> exn + world" where
  \<comment> \<open>\<open>os.makedirs(d, exist_ok=True)\<close>: the empty path raises FileNotFoundError, an
      existing directory is left alone, an existing file raises FileExistsError\<close>
  "makedirs env d w =
     (if d = [] then Inl (OSError ''[Errno 2] No such file or directory'')
      else case files w d of
        Some Directory \<Rightarrow> Inr w
      | Some _ \<Rightarrow> Inl (OSError ''[Errno 17] File exists'')
      | None \<Rightarrow>
          (case mkdir_error env d of
             Some e \<Rightarrow> Inl e
           | None \<Rightarrow> Inr (w\<lparr>files := (files w)(d \<mapsto> Directory)\<rparr>)))"

definition write_file :: "'a sys_env_scheme \<Rightarrow> path \<Rightarrow> content \<Rightarrow> world \<Rightarrow> exn + world" where
  \<comment> \<open>\<open>with open(p, 'w') as f:\<close> and one write of the whole content: the file is
      replaced, whatever it held\<close>
  "write_file env p c w =
     (if files w p = Some Directory then Inl (OSError ''[Errno 21] Is a directory'')
      else if dirname p \<noteq> [] \<and> files w (dirname p) \<noteq> Some Directory
        then Inl (OSError ''[Errno 2] No such file or directory'')
      else case open_w_error env p of
        Some e \<Rightarrow> Inl e
      | None \<Rightarrow> Inr (w\<lparr>files := (files w)(p \<mapsto> c)\<rparr>))"

definition read_file :: "'a sys_env_scheme \<Rightarrow> path \<Rightarrow> world \<Rightarrow> exn + content" where
  \<comment> \<open>\<open>open(p, 'r')\<close> or \<open>open(p, 'rb')\<close>: the content, before any decoding\<close>
  "read_file env p w =
     (case files w p of
        None \<Rightarrow> Inl (OSError ''[Errno 2] No such file or directory'')
      | Some Directory \<Rightarrow> Inl (OSError ''[Errno 21] Is a directory'')
      | Some c \<Rightarrow> (case open_r_error env p of Some e \<Rightarrow> Inl e | None \<Rightarrow> Inr c))"

definition decode_utf8 :: "'a sys_env_scheme \<Rightarrow> content \<Rightarrow> exn + string" where
  \<comment> \<open>\<open>file.read()\<close> with \<open>encoding='utf-8'\<close>: a file written as text reads back\<close>
  "decode_utf8 env c =
     (case c of
        TextFile s \<Rightarrow> Inr s
      | _ \<Rightarrow> (case utf8_text env c of
                None \<Rightarrow> Inl (UnicodeDecodeError ''utf-8 codec cannot decode'')
              | Some s \<Rightarrow> Inr s))"

definition read_text :: "'a sys_env_scheme \<Rightarrow> path \<Rightarrow> world \<Rightarrow> exn + string" where
  "read_text env p w =
     (case read_file env p w of Inl e \<Rightarrow> Inl e | Inr c \<Rightarrow> decode_utf8 env c)"

section \<open>text_extractor.py\<close>

text \<open>
  The five patterns \<open>re.sub\<close> is called with, in the order of the source:
  whitespace run \<^verbatim>\<open>\s+\<close>; page number line \<^verbatim>\<open>\n\s*\d+\s*\n\<close>; page header line
  \<^verbatim>\<open>\n\s*Page \d+.*?\n\<close> (IGNORECASE); newline run \<^verbatim>\<open>\n{3,}\<close>; abstract prefix
  \<^verbatim>\<open>^abstract\s*:?\s*\<close> (IGNORECASE).
\<close>

datatype regex = WhitespaceRun | PageNumberLine | PageHeaderLine | NewlineRun | AbstractPrefix

text \<open>
  The libraries of the extractor: \<open>re.sub pattern repl text\<close>; whether \<open>import PyPDF2\<close>
  and \<open>from docx import Document\<close> succeed once \<open>pip3 install\<close> has run a given number
  of times; the page texts PyPDF2 extracts and the paragraph texts python-docx reads
  from a file's content, or the exception they raise.
\<close>

record extractor_env = sys_env +
  re_sub :: "regex \<Rightarrow> string \<Rightarrow> string \<Rightarrow> string"
  pypdf2_importable :: "nat \<Rightarrow> bool"
  docx_importable :: "nat \<Rightarrow> bool"
  pdf_page_texts :: "content \<Rightarrow> exn + string list"
  docx_paragraphs :: "content \<Rightarrow> exn + string list"

definition is_import_error :: "exn \<Rightarrow> bool" where
  "is_import_error e = (case e of ImportError _ \<Rightarrow> True | _ \<Rightarrow> False)"

definition pdf_try :: "extractor_env \<Rightarrow> path \<Rightarrow> world \<Rightarrow> exn + string" where
  \<comment> \<open>the \<open>try\<close> block of \<open>extract_from_pdf\<close>\<close>
  "pdf_try env file_path w =
     (if \<not> pypdf2_importable env (pip_runs w) then Inl (ImportError ''No module named PyPDF2'')
      else case read_file env file_path w of
        Inl e \<Rightarrow> Inl e
      | Inr c \<Rightarrow>
          (case pdf_page_texts env c of
             Inl e \<Rightarrow> Inl e
           | Inr pages \<Rightarrow>
               Inr (strip (foldl (\<lambda>text page. text @ page @ [CHR 0x0A]) [] pages))))"

partial_function (option) extract_from_pdf ::
  "extractor_env \<Rightarrow> path \<Rightarrow> world \<Rightarrow> (string option \<times> world) option" where
  "extract_from_pdf env file_path w =
     (case pdf_try env file_path w of
        Inr text \<Rightarrow> Some (Some text, w)
      | Inl e \<Rightarrow>
          if is_import_error e
          then extract_from_pdf env file_path
                 (pip_install (say ''PyPDF2 not installed. Installing...'' w))
          else Some (None, say (''Error extracting from PDF: '' @ exn_msg e) w))"

definition docx_try :: "extractor_env \<Rightarrow> path \<Rightarrow> world \<Rightarrow> exn + string" where
  \<comment> \<open>the \<open>try\<close> block of \<open>extract_from_docx\<close>\<close>
  "docx_try env file_path w =
     (if \<not> docx_importable env (pip_runs w) then Inl (ImportError ''No module named docx'')
      else case read_file env file_path w of
        Inl e \<Rightarrow> Inl e
      | Inr c \<Rightarrow>
          (case docx_paragraphs env c of
             Inl e \<Rightarrow> Inl e
           | Inr paragraphs \<Rightarrow>
               Inr (strip (foldl (\<lambda>text paragraph. text @ paragraph @ [CHR 0x0A]) [] paragraphs))))"

partial_function (option) extract_from_docx ::
  "extractor_env \<Rightarrow> path \<Rightarrow> world \<Rightarrow> (string option \<times> world) option" where
  "extract_from_docx env file_path w =
     (case docx_try env file_path w of
        Inr text \<Rightarrow> Some (Some text, w)
      | Inl e \<Rightarrow>
          if is_import_error e
          then extract_from_docx env file_path
                 (pip_install (say ''python-docx not installed. Installing...'' w))
          else Some (None, say (''Error extracting from DOCX: '' @ exn_msg e) w))"

definition extract_from_txt :: "extractor_env \<Rightarrow> path \<Rightarrow> world \<Rightarrow> string option \<times> world" where
  "extract_from_txt env file_path w =
     (case read_text env file_path w of
        Inr s \<Rightarrow> (Some (strip s), w)
      | Inl (UnicodeDecodeError m) \<Rightarrow>
          (case read_file env file_path w of
             Inr c \<Rightarrow> (Some (strip (latin1_text env c)), w)
           | Inl e \<Rightarrow> (None, say (''Error reading TXT file: '' @ exn_msg e) w))
      | Inl e \<Rightarrow> (None, say (''Error extracting from TXT: '' @ exn_msg e) w))"

definition clean_text :: "extractor_env \<Rightarrow> string \<Rightarrow> string" where
  "clean_text env text =
     (if text = [] then []
      else
        let text = re_sub env WhitespaceRun '' '' text;
            text = re_sub env PageNumberLine [CHR 0x0A] text;
            text = re_sub env PageHeaderLine [CHR 0x0A] text;
            text = re_sub env NewlineRun [CHR 0x0A, CHR 0x0A] text
        in strip text)"

definition is_title_line :: "string \<Rightarrow> bool" where
  \<comment> \<open>the test of the title loop, on a stripped line\<close>
  "is_title_line line =
     (10 < length line \<and>
      \<not> (startswith (lower line) ''abstract'' \<or> startswith (lower line) ''introduction''))"

fun scan_abstract :: "string list \<Rightarrow> int \<Rightarrow> int \<Rightarrow> int \<times> int" where
  \<comment> \<open>the \<open>enumerate\<close> loop from index \<open>i\<close>: the values of \<open>abstract_start\<close> and
      \<open>abstract_end\<close> when it is left\<close>
  "scan_abstract [] i abstract_start = (abstract_start, - 1)"
| "scan_abstract (line # rest) i abstract_start =
     (let line_lower = strip (lower line)
      in if startswith line_lower ''abstract'' then scan_abstract rest (i + 1) i
         else if abstract_start \<noteq> - 1 \<and>
                 (startswith line_lower ''introduction'' \<or> startswith line_lower ''1.'' \<or>
                  startswith line_lower ''keywords'' \<or> startswith line_lower ''key words'')
           then (abstract_start, i)
         else scan_abstract rest (i + 1) abstract_start)"

definition extract_metadata :: "extractor_env \<Rightarrow> string \<Rightarrow> pydict" where
  "extract_metadata env text =
     (let metadata = [(''title'', PStr []), (''authors'', PList []), (''abstract'', PStr [])];
          lines = split_on (CHR 0x0A) text;
          metadata =
            (case List.find is_title_line (map strip (take 10 lines)) of
               None \<Rightarrow> metadata
             | Some line \<Rightarrow> dict_set ''title'' (PStr line) metadata);
          (abstract_start, abstract_end) = scan_abstract lines 0 (- 1)
      in if abstract_start \<noteq> - 1
         then
           let abstract_end =
                 (if abstract_end = - 1 then min (abstract_start + 20) (int (length lines))
                  else abstract_end);
               abstract_lines =
                 take (nat abstract_end - nat abstract_start) (drop (nat abstract_start) lines);
               abstract_text = strip (join '' '' abstract_lines);
               abstract_text = re_sub env AbstractPrefix [] abstract_text
           in dict_set ''abstract'' (PStr abstract_text) metadata
         else metadata)"

definition print_field :: "string \<Rightarrow> nat \<Rightarrow> pyval \<Rightarrow> world \<Rightarrow> world" where
  \<comment> \<open>\<open>if v: print(f"label{v[:n]}...")\<close> for a field that holds a string\<close>
  "print_field label n v w =
     (case v of PStr s \<Rightarrow> (if s \<noteq> [] then say (label @ take n s @ ''...'') w else w) | _ \<Rightarrow> w)"

definition document_failed :: "exn \<Rightarrow> world \<Rightarrow> bool \<times> world" where
  \<comment> \<open>the \<open>except Exception\<close> of \<open>process_document\<close>\<close>
  "document_failed e w = (False, say (''Error processing document: '' @ exn_msg e) w)"

definition save_document ::
  "extractor_env \<Rightarrow> path \<Rightarrow> path \<Rightarrow> string option \<times> world \<Rightarrow> bool \<times> world" where
  \<comment> \<open>\<open>process_document\<close> from \<open>if text is None\<close> on\<close>
  "save_document env input_path output_path extracted =
     (case extracted of
        (None, w) \<Rightarrow> (False, say ''Error: Failed to extract text from document'' w)
      | (Some text, w) \<Rightarrow>
          let cleaned_text = clean_text env text
          in if cleaned_text = [] then (False, say ''Error: No text content found in document'' w)
             else
               let metadata = extract_metadata env cleaned_text
               in case makedirs env (dirname output_path) w of
                    Inl e \<Rightarrow> document_failed e w
                  | Inr w1 \<Rightarrow>
                      (case write_file env output_path (TextFile cleaned_text) w1 of
                         Inl e \<Rightarrow> document_failed e w1
                       | Inr w2 \<Rightarrow>
                           let metadata_path = replace output_path ''.txt'' ''_metadata.json''
                           in case write_file env metadata_path (JsonFile (PDict metadata)) w2 of
                                Inl e \<Rightarrow> document_failed e w2
                              | Inr w3 \<Rightarrow>
                                  (True,
                                   print_field ''Abstract: '' 200 (dict_get metadata ''abstract'' PNone)
                                    (print_field ''Title: '' 100 (dict_get metadata ''title'' PNone)
                                      (say (''Extracted '' @ show_nat (length cleaned_text) @ '' characters'')
                                        (say (''Metadata saved to: '' @ metadata_path)
                                          (say (''Text saved to: '' @ output_path)
                                            (say (''Successfully extracted text from '' @ input_path)
                                               w3))))))))"

definition process_document ::
  "extractor_env \<Rightarrow> path \<Rightarrow> path \<Rightarrow> world \<Rightarrow> (bool \<times> world) option" where
  \<comment> \<open>\<open>None\<close>: the call does not return\<close>
  "process_document env input_path output_path w =
     (if \<not> path_exists w input_path
      then Some (False, say (''Error: Input file '' @ input_path @ '' does not exist'') w)
      else
        let file_extension = lower (suffix input_path)
        in if file_extension = ''.pdf''
           then map_option (save_document env input_path output_path)
                  (extract_from_pdf env input_path w)
           else if file_extension = ''.docx''
           then map_option (save_document env input_path output_path)
                  (extract_from_docx env input_path w)
           else if file_extension \<in> set [''.txt'', ''.text'']
           then Some (save_document env input_path output_path (extract_from_txt env input_path w))
           else Some (False, say (''Error: Unsupported file type '' @ file_extension) w))"

definition exit_code :: "bool \<Rightarrow> nat" where
  \<comment> \<open>\<open>sys.exit(0 if success else 1)\<close>\<close>
  "exit_code success = (if success then 0 else 1)"


declare extract_from_pdf.simps [code]
declare extract_from_docx.simps [code]

subsection \<open>Environments of the sample runs\<close>

text \<open>
  An environment in which nothing fails and both libraries are installed. Its \<open>re.sub\<close>
  returns the text as it is, which is the result of each of the five substitutions on
  the texts of the sample runs: they have single spaces, no line break and no abstract.
\<close>

definition sample_extractor_env :: extractor_env where
  "sample_extractor_env =
     \<lparr>mkdir_error = (\<lambda>_. None), open_w_error = (\<lambda>_. None), open_r_error = (\<lambda>_. None),
      utf8_text = (\<lambda>_. None), latin1_text = (\<lambda>_. []),
      re_sub = (\<lambda>pattern repl body. body),
      pypdf2_importable = (\<lambda>_. True), docx_importable = (\<lambda>_. True),
      pdf_page_texts = (\<lambda>_. Inr []), docx_paragraphs = (\<lambda>_. Inr [])\<rparr>"


definition sample_world :: world where
  "sample_world =
     \<lparr>files = [''in/paper.txt'' \<mapsto> TextFile ''Deep Learning for Graphs'',
               ''in/paper.pdf'' \<mapsto> Blob 1,
               ''in/paper.docx'' \<mapsto> Blob 2,
               ''in/notes.md'' \<mapsto> TextFile ''Deep Learning for Graphs'',
               ''in/blank.txt'' \<mapsto> TextFile ''   ''],
      stdout = [], pip_runs = 0\<rparr>"

section \<open>style_transfer.py\<close>

text \<open>
  The seven filters are sequences of OpenCV, PIL and SciPy calls on the pixels; what
  they return for an image is a parameter, like decoding a file, converting to RGB and
  resizing (whose new size the script computes in floating point).
\<close>

datatype style_function =
  Vangogh | Picasso | Monet | Abstract | Dali | Warhol | Kandinsky

record style_env = sys_env +
  image_open :: "content \<Rightarrow> exn + image"
  convert_rgb :: "image \<Rightarrow> exn + image"
  resize_lanczos :: "image \<Rightarrow> exn + image"
  apply_style :: "style_function \<Rightarrow> image \<Rightarrow> exn + image"

definition style_functions :: "(string \<times> style_function) list" where
  "style_functions =
     [(''vangogh'', Vangogh), (''picasso'', Picasso), (''monet'', Monet),
      (''abstract'', Abstract), (''dali'', Dali), (''warhol'', Warhol),
      (''kandinsky'', Kandinsky)]"

definition select_style :: "string \<Rightarrow> style_function" where
  \<comment> \<open>\<open>if style.lower() in style_functions: ... else:\<close> default to Van Gogh\<close>
  "select_style style =
     (case map_of style_functions (lower style) of
        Some chosen \<Rightarrow> chosen
      | None \<Rightarrow> Vangogh)"

definition load_image :: "style_env \<Rightarrow> path \<Rightarrow> world \<Rightarrow> exn + image" where
  \<comment> \<open>\<open>Image.open\<close>, the conversion to RGB and the resize of a large image\<close>
  "load_image env input_path w =
     (case read_file env input_path w of
        Inl e \<Rightarrow> Inl e
      | Inr c \<Rightarrow>
          (case image_open env c of
             Inl e \<Rightarrow> Inl e
           | Inr img \<Rightarrow>
               (case (if mode img \<noteq> ''RGB'' then convert_rgb env img else Inr img) of
                  Inl e \<Rightarrow> Inl e
                | Inr img \<Rightarrow>
                    if 1024 < max (width img) (height img) then resize_lanczos env img
                    else Inr img)))"

definition process_image_try ::
  "style_env \<Rightarrow> path \<Rightarrow> path \<Rightarrow> string \<Rightarrow> world \<Rightarrow> (exn \<times> world) + world" where
  \<comment> \<open>the \<open>try\<close> block of \<open>process_image\<close>: the exception raised and the world it
      leaves, or the world after the last \<open>print\<close>\<close>
  "process_image_try env input_path output_path style w =
     (case load_image env input_path w of
        Inl e \<Rightarrow> Inl (e, w)
      | Inr img \<Rightarrow>
          (case apply_style env (select_style style) img of
             Inl e \<Rightarrow> Inl (e, w)
           | Inr processed_image \<Rightarrow>
               (case makedirs env (dirname output_path) w of
                  Inl e \<Rightarrow> Inl (e, w)
                | Inr w1 \<Rightarrow>
                    (case write_file env output_path (JpegFile processed_image) w1 of
                       Inl e \<Rightarrow> Inl (e, w1)
                     | Inr w2 \<Rightarrow>
                         Inr (say (''Output saved to: '' @ output_path)
                               (say (''Successfully processed image with '' @ style @ '' style'')
                                  w2))))))"

definition process_image ::
  "style_env \<Rightarrow> path \<Rightarrow> path \<Rightarrow> string \<Rightarrow> world \<Rightarrow> nat option \<times> world" where
  \<comment> \<open>\<open>Some n\<close>: left by \<open>sys.exit(n)\<close>; \<open>None\<close>: returned\<close>
  "process_image env input_path output_path style w =
     (case process_image_try env input_path output_path style w of
        Inl (e, w') \<Rightarrow> (Some 1, say (''Error processing image: '' @ exn_msg e) w')
      | Inr w' \<Rightarrow> (None, w'))"

definition style_transfer_main :: "style_env \<Rightarrow> string list \<Rightarrow> world \<Rightarrow> nat \<times> world" where
  \<comment> \<open>the script, from \<open>sys.argv\<close> to the exit status; reaching the end of the script is
      status 0\<close>
  "style_transfer_main env argv w =
     (if length argv \<noteq> 4
      then (1, say ''Available styles: vangogh, picasso, monet, abstract, dali, warhol, kandinsky''
                 (say ''Usage: python style_transfer.py <input_path> <output_path> <style>'' w))
      else if \<not> path_exists w (argv ! 1)
      then (1, say (''Error: Input file '' @ argv ! 1 @ '' does not exist'') w)
      else case process_image env (argv ! 1) (argv ! 2) (argv ! 3) w of
             (Some status, w') \<Rightarrow> (status, w')
           | (None, w') \<Rightarrow> (0, w'))"

definition sample_style_env :: style_env where
  \<comment> \<open>nothing fails; a filter marks the pixels with its number\<close>
  "sample_style_env =
     \<lparr>mkdir_error = (\<lambda>_. None), open_w_error = (\<lambda>_. None), open_r_error = (\<lambda>_. None),
      utf8_text = (\<lambda>_. None), latin1_text = (\<lambda>_. []),
      image_open = (\<lambda>c. case c of JpegFile img \<Rightarrow> Inr img
                           | _ \<Rightarrow> Inl (OtherError ''cannot identify image file'')),
      convert_rgb = (\<lambda>img. Inr (Image ''RGB'' (width img) (height img) (pixels img))),
      resize_lanczos = (\<lambda>img. Inr img),
      apply_style = (\<lambda>chosen img.
         Inr (Image (mode img) (width img) (height img)
               (10 * pixels img +
                (case chosen of Vangogh \<Rightarrow> 1 | Picasso \<Rightarrow> 2 | Monet \<Rightarrow> 3 | Abstract \<Rightarrow> 4
                 | Dali \<Rightarrow> 5 | Warhol \<Rightarrow> 6 | Kandinsky \<Rightarrow> 7))))\<rparr>"

definition sample_gallery :: world where
  "sample_gallery =
     \<lparr>files = [''in/photo.jpg'' \<mapsto> JpegFile (Image ''RGB'' 640 480 7),
               ''in/notes.txt'' \<mapsto> TextFile ''not an image''],
      stdout = [], pip_runs = 0\<rparr>"

section \<open>topic_analyzer.py\<close>

text \<open>
  \<open>extract_topics_lda\<close>, \<open>extract_topics_tfidf\<close>, \<open>generate_summary\<close> and
  \<open>suggest_topics\<close> compute with NLTK, scikit-learn and floating point inside a
  \<open>try\<close> whose \<open>except Exception\<close> returns a list (a string for the summary): they
  raise nothing, and what they return and print for their arguments is a parameter.
  So are \<open>json.loads\<close> (\<open>None\<close> for a JSONDecodeError), \<open>str(os.path.getctime(p))\<close>
  and whether \<open>import nltk\<close> and \<open>import sklearn\<close> succeed once \<open>pip3 install\<close> has
  run a given number of times.
\<close>

record analyzer_env = sys_env +
  nltk_sklearn_importable :: "nat \<Rightarrow> bool"
  extract_topics_lda :: "string \<Rightarrow> pyval list \<times> string list"
  extract_topics_tfidf :: "string \<Rightarrow> pyval list \<times> string list"
  generate_summary :: "string \<Rightarrow> string \<times> string list"
  suggest_topics :: "pyval list \<Rightarrow> pyval \<Rightarrow> pyval list \<times> string list"
  json_loads :: "string \<Rightarrow> pyval option"
  ctime_str :: "path \<Rightarrow> string"

definition run :: "'a \<times> string list \<Rightarrow> world \<Rightarrow> 'a \<times> world" where
  \<comment> \<open>a call that returns a value and prints lines\<close>
  "run result w = (fst result, foldl (\<lambda>w line. say line w) w (snd result))"

definition install_dependencies ::
  "'a analyzer_env_scheme \<Rightarrow> world \<Rightarrow> (exn \<times> world) + world" where
  \<comment> \<open>the imports after the installation are outside the \<open>try\<close>\<close>
  "install_dependencies env w =
     (if nltk_sklearn_importable env (pip_runs w) then Inr w
      else
        let w1 = pip_install (say ''Installing missing dependency: No module named nltk'' w)
        in if nltk_sklearn_importable env (pip_runs w1) then Inr w1
           else Inl (ImportError ''No module named nltk'', w1))"

definition read_json :: "'a analyzer_env_scheme \<Rightarrow> path \<Rightarrow> world \<Rightarrow> exn + pyval" where
  \<comment> \<open>\<open>with open(p, 'r', encoding='utf-8') as file: json.load(file)\<close>\<close>
  "read_json env p w =
     (case read_file env p w of
        Inl e \<Rightarrow> Inl e
      | Inr (JsonFile v) \<Rightarrow> Inr v
      | Inr c \<Rightarrow>
          (case decode_utf8 env c of
             Inl e \<Rightarrow> Inl e
           | Inr s \<Rightarrow>
               (case json_loads env s of
                  None \<Rightarrow> Inl (OtherError ''Expecting value'')
                | Some v \<Rightarrow> Inr v)))"

definition load_predefined_topics ::
  "'a analyzer_env_scheme \<Rightarrow> path option \<Rightarrow> world \<Rightarrow> pyval \<times> world" where
  \<comment> \<open>\<open>predefined_topics = []\<close> and the \<open>if\<close> that loads the file; no path is \<open>None\<close>\<close>
  "load_predefined_topics env predefined_topics_path w =
     (case predefined_topics_path of
        None \<Rightarrow> (PList [], w)
      | Some p \<Rightarrow>
          if p \<noteq> [] \<and> path_exists w p
          then (case read_json env p w of
                  Inl e \<Rightarrow>
                    (PList [], say (''Warning: Could not load predefined topics: '' @ exn_msg e) w)
                | Inr v \<Rightarrow> (v, w))
          else (PList [], w))"

definition analysis_date :: "'a analyzer_env_scheme \<Rightarrow> path \<Rightarrow> world \<Rightarrow> exn + pyval" where
  \<comment> \<open>\<open>str(os.path.getctime(text_path))\<close>\<close>
  "analysis_date env text_path w =
     (if path_exists w text_path then Inr (PStr (ctime_str env text_path))
      else Inl (OSError ''[Errno 2] No such file or directory''))"

definition save_analysis ::
  "'a analyzer_env_scheme \<Rightarrow> path \<Rightarrow> pydict \<Rightarrow> world \<Rightarrow> (exn \<times> world) + world" where
  \<comment> \<open>\<open>os.makedirs(os.path.dirname(output_path), exist_ok=True)\<close> and the \<open>json.dump\<close>\<close>
  "save_analysis env output_path analysis_result w =
     (case makedirs env (dirname output_path) w of
        Inl e \<Rightarrow> Inl (e, w)
      | Inr w1 \<Rightarrow>
          (case write_file env output_path (JsonFile (PDict analysis_result)) w1 of
             Inl e \<Rightarrow> Inl (e, w1)
           | Inr w2 \<Rightarrow> Inr w2))"

definition collect_analysis ::
  "'a analyzer_env_scheme \<Rightarrow> string \<Rightarrow> path option \<Rightarrow> world
     \<Rightarrow> (string \<times> pyval list \<times> pyval list) \<times> world" where
  \<comment> \<open>\<open>analyze_paper\<close> from \<open>print(f"Analyzing text ...")\<close> to the call of
      \<open>suggest_topics\<close>: summary, extracted topics, suggested topics\<close>
  "collect_analysis env body predefined_topics_path w =
     (let w = say (''Analyzing text with '' @ show_nat (length body) @ '' characters...'') w;
          w = say ''Extracting topics...'' w;
          (extracted_topics, w) = run (extract_topics_lda env body) w;
          (extracted_topics, w) =
            (if extracted_topics = []
             then run (extract_topics_tfidf env body) (say ''LDA failed, trying TF-IDF...'' w)
             else (extracted_topics, w));
          w = say ''Generating summary...'' w;
          (summary, w) = run (generate_summary env body) w;
          (predefined_topics, w) = load_predefined_topics env predefined_topics_path w;
          w = say ''Generating topic suggestions...'' w;
          (suggested_topics, w) = run (suggest_topics env extracted_topics predefined_topics) w
      in ((summary, extracted_topics, suggested_topics), w))"

definition analyze_text ::
  "'a analyzer_env_scheme \<Rightarrow> string \<Rightarrow> path \<Rightarrow> path \<Rightarrow> path option \<Rightarrow> world
     \<Rightarrow> (exn \<times> world) + (bool \<times> world)" where
  \<comment> \<open>\<open>analyze_paper\<close> from \<open>print(f"Analyzing text ...")\<close> to \<open>return True\<close>\<close>
  "analyze_text env body text_path output_path predefined_topics_path w =
     (case collect_analysis env body predefined_topics_path w of
        ((summary, extracted_topics, suggested_topics), w) \<Rightarrow>
          (case analysis_date env text_path w of
             Inl e \<Rightarrow> Inl (e, w)
           | Inr date \<Rightarrow>
               (case save_analysis env output_path
                       [(''summary'', PStr summary),
                        (''extractedTopics'', PList extracted_topics),
                        (''suggestedTopics'', PList suggested_topics),
                        (''analysisDate'', date)] w of
                  Inl failure \<Rightarrow> Inl failure
                | Inr w2 \<Rightarrow>
                    Inr (True,
                         say (''Summary length: '' @ show_nat (length summary) @ '' characters'')
                          (say (''Generated '' @ show_nat (length suggested_topics) @ '' topic suggestions'')
                            (say (''Found '' @ show_nat (length extracted_topics) @ '' topics'')
                              (say (''Results saved to: '' @ output_path)
                                (say ''Analysis completed successfully!'' w2))))))))"

definition analyze_paper_try ::
  "'a analyzer_env_scheme \<Rightarrow> path \<Rightarrow> path \<Rightarrow> path option \<Rightarrow> world
     \<Rightarrow> (exn \<times> world) + (bool \<times> world)" where
  \<comment> \<open>the \<open>try\<close> block of \<open>analyze_paper\<close>\<close>
  "analyze_paper_try env text_path output_path predefined_topics_path w =
     (case install_dependencies env w of
        Inl failure \<Rightarrow> Inl failure
      | Inr w \<Rightarrow>
          (case read_text env text_path w of
             Inl e \<Rightarrow> Inl (e, w)
           | Inr body \<Rightarrow>
               if strip body = [] then Inr (False, say ''Error: No text content found'' w)
               else analyze_text env body text_path output_path predefined_topics_path w))"

definition analyze_paper ::
  "'a analyzer_env_scheme \<Rightarrow> path \<Rightarrow> path \<Rightarrow> path option \<Rightarrow> world \<Rightarrow> bool \<times> world" where
  "analyze_paper env text_path output_path predefined_topics_path w =
     (case analyze_paper_try env text_path output_path predefined_topics_path w of
        Inr result \<Rightarrow> result
      | Inl (e, w') \<Rightarrow> (False, say (''Error analyzing paper: '' @ exn_msg e) w'))"

definition optional_topics_path :: "string list \<Rightarrow> path option" where
  \<comment> \<open>\<open>sys.argv[3] if len(sys.argv) > 3 else None\<close>\<close>
  "optional_topics_path argv = (if 3 < length argv then Some (argv ! 3) else None)"

definition topic_analyzer_main ::
  "'a analyzer_env_scheme \<Rightarrow> string list \<Rightarrow> world \<Rightarrow> nat \<times> world" where
  "topic_analyzer_main env argv w =
     (if length argv < 3
      then (1, say ''Usage: python topic_analyzer.py <text_path> <output_path> [predefined_topics_path]'' w)
      else case analyze_paper env (argv ! 1) (argv ! 2) (optional_topics_path argv) w of
             (success, w') \<Rightarrow> (exit_code success, w'))"

section \<open>openai_analyzer.py\<close>

text \<open>
  The client library is a parameter: the environment variables, the exception the
  constructor \<open>openai.OpenAI\<close> raises, if any, and the content of the first choice of
  the two chat completions, as functions of what the script puts into its fixed prompts
  (the paper's text; the two bullet lists). \<open>suggest_topics_openai\<close>, like the local
  \<open>suggest_topics\<close>, returns a list on every path and raises nothing. \<open>format_value\<close>
  is the text an f-string gives for a value that is not a string.
\<close>

datatype client = Client (api_key: string) (base_url: "string option")

record openai_env = analyzer_env +
  getenv :: "string \<Rightarrow> string option"
  client_error :: "string \<Rightarrow> string option \<Rightarrow> exn option"
  chat_analysis :: "client \<Rightarrow> string \<Rightarrow> exn + string"
  suggest_topics_openai :: "pyval \<Rightarrow> pyval \<Rightarrow> client \<Rightarrow> pyval list \<times> string list"
  format_value :: "pyval \<Rightarrow> string"

definition setup_openai :: "openai_env \<Rightarrow> world \<Rightarrow> client option \<times> world" where
  "setup_openai env w =
     (let api_key = getenv env ''OPENAI_API_KEY'';
          api_base = getenv env ''OPENAI_API_BASE''
      in case api_key of
           None \<Rightarrow> (None, say ''Warning: OPENAI_API_KEY not found in environment'' w)
         | Some key \<Rightarrow>
             if key = [] then (None, say ''Warning: OPENAI_API_KEY not found in environment'' w)
             else
               let base = (case api_base of
                             None \<Rightarrow> None
                           | Some b \<Rightarrow> if b \<noteq> [] then Some b else None)
               in case client_error env key base of
                    Some e \<Rightarrow> (None, say (''Error setting up OpenAI client: '' @ exn_msg e) w)
                  | None \<Rightarrow> (Some (Client key base), w))"

datatype response_section = NoSection | SummarySection | TopicsSection | AreasSection

definition is_bullet :: "string \<Rightarrow> bool" where
  \<comment> \<open>\<open>line.startswith(('-', '*', bullet))\<close>; the bullet U+2022 is outside the alphabet\<close>
  "is_bullet line = (startswith line ''-'' \<or> startswith line ''*'')"

definition strip_bullets :: "string \<Rightarrow> string" where
  \<comment> \<open>\<open>line.lstrip('-*' + bullet).strip()\<close>\<close>
  "strip_bullets line = strip (dropWhile (\<lambda>c. c = CHR ''-'' \<or> c = CHR ''*'') line)"

fun scan_response ::
  "string list \<Rightarrow> response_section \<Rightarrow> string \<times> pyval list \<times> pyval list
     \<Rightarrow> (string \<times> pyval list \<times> pyval list) option" where
  \<comment> \<open>the loop of \<open>extract_from_text_response\<close> over the lines; \<open>None\<close>: the IndexError
      of \<open>topic_text.split()[0]\<close> on a bullet without text\<close>
  "scan_response [] current result = Some result"
| "scan_response (raw # rest) current (summary, topics, areas) =
     (let line = strip raw
      in if line = [] then scan_response rest current (summary, topics, areas)
         else if contains (lower line) ''summary''
           then scan_response rest SummarySection (summary, topics, areas)
         else if contains (lower line) ''topic'' \<or> contains (lower line) ''theme''
           then scan_response rest TopicsSection (summary, topics, areas)
         else if contains (lower line) ''suggest'' \<or> contains (lower line) ''area''
           then scan_response rest AreasSection (summary, topics, areas)
         else if current = SummarySection \<and> summary = []
           then scan_response rest current (line, topics, areas)
         else if current = TopicsSection \<and> is_bullet line
           then (case split_ws (strip_bullets line) of
                   [] \<Rightarrow> None
                 | first_word # _ \<Rightarrow>
                     scan_response rest current
                       (summary,
                        topics @ [PDict [(''topic'', PStr (strip_bullets line)),
                                         (''relevanceScore'', PFloat (8 / 10)),
                                         (''keywords'', PList [PStr first_word])]],
                        areas))
         else if current = AreasSection \<and> is_bullet line
           then scan_response rest current
                  (summary, topics,
                   areas @ [PDict [(''area'', PStr (strip_bullets line)),
                                   (''reasoning'', PStr ''Related to paper content'')]])
         else scan_response rest current (summary, topics, areas))"

definition extract_from_text_response :: "string \<Rightarrow> world \<Rightarrow> pyval \<times> world" where
  \<comment> \<open>\<open>PNone\<close> is Python's \<open>None\<close>\<close>
  "extract_from_text_response reply w =
     (case scan_response (split_on (CHR 0x0A) reply) NoSection ([], [], []) of
        None \<Rightarrow>
          (PNone, say ''Error extracting from text response: list index out of range'' w)
      | Some (summary, topics, areas) \<Rightarrow>
          (PDict [(''summary'', PStr summary), (''extractedTopics'', PList topics),
                  (''suggestedAreas'', PList areas)], w))"

definition analyze_with_openai :: "openai_env \<Rightarrow> string \<Rightarrow> client \<Rightarrow> world \<Rightarrow> pyval \<times> world" where
  "analyze_with_openai env body client w =
     (let max_chars = 12000;
          body = (if max_chars < length body then take max_chars body @ ''...'' else body)
      in case chat_analysis env client body of
           Inl e \<Rightarrow> (PNone, say (''Error with OpenAI analysis: '' @ exn_msg e) w)
         | Inr reply \<Rightarrow>
             let result_text = strip reply
             in case json_loads env result_text of
                  Some v \<Rightarrow> (v, w)
                | None \<Rightarrow>
                    extract_from_text_response result_text
                      (say ''Warning: Could not parse JSON response, using fallback extraction'' w))"

definition openai_suggestions ::
  "openai_env \<Rightarrow> client \<Rightarrow> pyval \<Rightarrow> pyval \<Rightarrow> world \<Rightarrow> (exn \<times> world) + (pyval list \<times> world)" where
  \<comment> \<open>\<open>suggested_topics = []\<close> and the \<open>if\<close> after it; \<open>.get\<close> on a value that is not a
      dict raises AttributeError\<close>
  "openai_suggestions env client openai_result predefined_topics w =
     (if truthy predefined_topics
      then (case openai_result of
              PDict d \<Rightarrow>
                if truthy (dict_get d ''extractedTopics'' PNone)
                then Inr (run (suggest_topics_openai env (dict_get d ''extractedTopics'' PNone)
                                 predefined_topics client) w)
                else Inr ([], w)
            | _ \<Rightarrow> Inl (OtherError ''object has no attribute get'', w))
      else Inr ([], w))"

definition py_len :: "pyval \<Rightarrow> nat option" where
  \<comment> \<open>\<open>len(v)\<close>; \<open>None\<close>: TypeError\<close>
  "py_len v =
     (case v of
        PStr s \<Rightarrow> Some (length s)
      | PList xs \<Rightarrow> Some (length xs)
      | PDict kvs \<Rightarrow> Some (length kvs)
      | _ \<Rightarrow> None)"

definition format_slice :: "openai_env \<Rightarrow> nat \<Rightarrow> pyval \<Rightarrow> string option" where
  \<comment> \<open>\<open>f"{v[:n]}"\<close>; \<open>None\<close>: TypeError or KeyError\<close>
  "format_slice env n v =
     (case v of
        PStr s \<Rightarrow> Some (take n s)
      | PList xs \<Rightarrow> Some (format_value env (PList (take n xs)))
      | _ \<Rightarrow> None)"

definition openai_log ::
  "openai_env \<Rightarrow> pydict \<Rightarrow> pyval list \<Rightarrow> path \<Rightarrow> world \<Rightarrow> (exn \<times> world) + (bool \<times> world)" where
  \<comment> \<open>the five \<open>print\<close>s after the \<open>json.dump\<close> and \<open>return True\<close>; \<open>len\<close> and the
      slice raise TypeError on a value that has none\<close>
  "openai_log env d suggested_topics output_path w =
     (let w = say (''Results saved to: '' @ output_path)
                (say ''OpenAI analysis completed successfully!'' w)
      in case py_len (dict_get d ''extractedTopics'' (PList [])) of
           None \<Rightarrow> Inl (OtherError ''object has no len()'', w)
         | Some n \<Rightarrow>
             let w = say (''Generated '' @ show_nat (length suggested_topics) @ '' topic suggestions'')
                       (say (''Found '' @ show_nat n @ '' topics'') w)
             in case format_slice env 100 (dict_get d ''summary'' (PStr [])) of
                  None \<Rightarrow> Inl (OtherError ''object is not subscriptable'', w)
                | Some shown \<Rightarrow> Inr (True, say (''Summary: '' @ shown @ ''...'') w))"

definition openai_save ::
  "openai_env \<Rightarrow> pyval \<Rightarrow> pyval list \<Rightarrow> path \<Rightarrow> path \<Rightarrow> world
     \<Rightarrow> (exn \<times> world) + (bool \<times> world)" where
  \<comment> \<open>\<open>analyze_paper_openai\<close> from \<open>analysis_result = {...}\<close> on; \<open>.get\<close> on a
      value that is not a dict raises AttributeError\<close>
  "openai_save env openai_result suggested_topics text_path output_path w =
     (case openai_result of
        PDict d \<Rightarrow>
          (case analysis_date env text_path w of
             Inl e \<Rightarrow> Inl (e, w)
           | Inr date \<Rightarrow>
               (case save_analysis env output_path
                       [(''summary'', dict_get d ''summary'' (PStr [])),
                        (''extractedTopics'', dict_get d ''extractedTopics'' (PList [])),
                        (''suggestedTopics'', PList suggested_topics),
                        (''suggestedAreas'', dict_get d ''suggestedAreas'' (PList [])),
                        (''analysisDate'', date),
                        (''analyzedWith'', PStr ''OpenAI'')] w of
                  Inl failure \<Rightarrow> Inl failure
                | Inr w2 \<Rightarrow> openai_log env d suggested_topics output_path w2))
      | _ \<Rightarrow> Inl (OtherError ''object has no attribute get'', w))"

definition openai_report ::
  "openai_env \<Rightarrow> client \<Rightarrow> pyval \<Rightarrow> path \<Rightarrow> path \<Rightarrow> path option \<Rightarrow> world
     \<Rightarrow> (exn \<times> world) + (bool \<times> world)" where
  \<comment> \<open>\<open>analyze_paper_openai\<close> from \<open>predefined_topics = []\<close> to \<open>return True\<close>\<close>
  "openai_report env client openai_result text_path output_path predefined_topics_path w =
     (case load_predefined_topics env predefined_topics_path w of
        (predefined_topics, w) \<Rightarrow>
          (case openai_suggestions env client openai_result predefined_topics w of
             Inl failure \<Rightarrow> Inl failure
           | Inr (suggested_topics, w) \<Rightarrow>
               openai_save env openai_result suggested_topics text_path output_path w))"

definition analyze_paper_openai_try ::
  "openai_env \<Rightarrow> path \<Rightarrow> path \<Rightarrow> path option \<Rightarrow> world \<Rightarrow> (exn \<times> world) + (bool \<times> world)" where
  \<comment> \<open>the \<open>try\<close> block of \<open>analyze_paper_openai\<close>; importing \<open>topic_analyzer\<close>, a
      module of the repository with standard-library imports only, succeeds\<close>
  "analyze_paper_openai_try env text_path output_path predefined_topics_path w =
     (case setup_openai env w of
        (None, w) \<Rightarrow>
          Inr (analyze_paper env text_path output_path predefined_topics_path
                 (say ''OpenAI client not available, falling back to local analysis'' w))
      | (Some client, w) \<Rightarrow>
          (case read_text env text_path w of
             Inl e \<Rightarrow> Inl (e, w)
           | Inr body \<Rightarrow>
               if strip body = [] then Inr (False, say ''Error: No text content found'' w)
               else
                 let w = say (''Analyzing text with OpenAI ('' @ show_nat (length body)
                               @ '' characters)...'') w;
                     (openai_result, w) = analyze_with_openai env body client w
                 in if \<not> truthy openai_result
                    then Inr (analyze_paper env text_path output_path predefined_topics_path
                                (say ''OpenAI analysis failed, falling back to local analysis'' w))
                    else openai_report env client openai_result text_path output_path
                           predefined_topics_path w))"

definition analyze_paper_openai ::
  "openai_env \<Rightarrow> path \<Rightarrow> path \<Rightarrow> path option \<Rightarrow> world \<Rightarrow> bool \<times> world" where
  \<comment> \<open>\<open>analyze_paper\<close> raises nothing, so the inner \<open>except\<close> of the handler is not entered\<close>
  "analyze_paper_openai env text_path output_path predefined_topics_path w =
     (case analyze_paper_openai_try env text_path output_path predefined_topics_path w of
        Inr result \<Rightarrow> result
      | Inl (e, w') \<Rightarrow>
          analyze_paper env text_path output_path predefined_topics_path
            (say (''Error in OpenAI analysis: '' @ exn_msg e) w'))"

definition openai_analyzer_main :: "openai_env \<Rightarrow> string list \<Rightarrow> world \<Rightarrow> nat \<times> world" where
  "openai_analyzer_main env argv w =
     (if length argv < 3
      then (1, say ''Usage: python openai_analyzer.py <text_path> <output_path> [predefined_topics_path]'' w)
      else case analyze_paper_openai env (argv ! 1) (argv ! 2) (optional_topics_path argv) w of
             (success, w') \<Rightarrow> (exit_code success, w'))"

subsection \<open>Environments of the sample runs of the analyzers\<close>

text \<open>
  A machine with NLTK and scikit-learn and without \<open>OPENAI_API_KEY\<close>; the local
  functions find one topic and no suggestion, and the endpoint cannot be reached.
\<close>

definition sample_openai_env :: openai_env where
  "sample_openai_env =
     \<lparr>mkdir_error = (\<lambda>_. None), open_w_error = (\<lambda>_. None), open_r_error = (\<lambda>_. None),
      utf8_text = (\<lambda>_. None), latin1_text = (\<lambda>_. []),
      nltk_sklearn_importable = (\<lambda>_. True),
      extract_topics_lda = (\<lambda>body.
        ([PDict [(''topic'', PStr ''deep learning graphs''), (''relevanceScore'', PFloat (1 / 2)),
                 (''keywords'', PList [PStr ''deep'', PStr ''learning'', PStr ''graphs''])]], [])),
      extract_topics_tfidf = (\<lambda>body. ([], [])),
      generate_summary = (\<lambda>body. (body, [])),
      suggest_topics = (\<lambda>extracted predefined. ([], [])),
      json_loads = (\<lambda>_. None),
      ctime_str = (\<lambda>_. ''1700000000.0''),
      getenv = (\<lambda>_. None),
      client_error = (\<lambda>_ _. None),
      chat_analysis = (\<lambda>_ _. Inl (OtherError ''Connection error.'')),
      suggest_topics_openai = (\<lambda>_ _ _. ([], [])),
      format_value = (\<lambda>_. [])\<rparr>"

text \<open>The same with a key: the client is set up and the request fails.\<close>

definition keyed_openai_env :: openai_env where
  "keyed_openai_env =
     sample_openai_env
       \<lparr>getenv := (\<lambda>name. if name = ''OPENAI_API_KEY'' then Some ''sk-test'' else None)\<rparr>"

text \<open>With a key and an endpoint that answers with a JSON object holding a summary.\<close>

definition summary_reply :: string where
  "summary_reply =
     ''{'' @ [CHR 0x22] @ ''summary'' @ [CHR 0x22] @ '': '' @ [CHR 0x22] @ ''About graphs.''
       @ [CHR 0x22] @ ''}''"

definition answering_openai_env :: openai_env where
  "answering_openai_env =
     keyed_openai_env
       \<lparr>chat_analysis := (\<lambda>_ _. Inr summary_reply),
        json_loads := (\<lambda>s. if s = summary_reply
                            then Some (PDict [(''summary'', PStr ''About graphs.'')]) else None)\<rparr>"

section \<open>Properties of the extractor\<close>

subsection \<open>Dictionaries, files and strings\<close>

lemma dict_set_keys: "k \<in> set (map fst d) \<Longrightarrow> map fst (dict_set k v d) = map fst d"
  by (simp add: dict_set_def update_keys)

lemma map_of_dict_set: "map_of (dict_set k v d) k' = (if k' = k then Some v else map_of d k')"
  by (simp add: dict_set_def update_conv')

lemma files_say: "files (say l w) = files w"
  by (simp add: say_def)

lemma files_print_field: "files (print_field l n v w) = files w"
  by (simp add: print_field_def files_say split: pyval.splits)

lemma write_file_files:
  "write_file env p c w = Inr w' \<Longrightarrow> files w' = (files w)(p \<mapsto> c)"
  by (auto simp: write_file_def split: if_splits option.splits)

lemma replace_from_absent: "\<not> contains s old \<Longrightarrow> replace_from old new 0 s = s"
  by (induction s) auto

lemma replace_absent: "\<not> contains s old \<Longrightarrow> replace s old new = s"
proof -
  assume absent: "\<not> contains s old"
  have "old \<noteq> []" using absent by (cases s) (auto simp: startswith_def)
  then show ?thesis using absent by (simp add: replace_def replace_from_absent)
qed

subsection \<open>The metadata dictionary\<close>

lemma extract_metadata_shape:
  "\<exists>t a. extract_metadata env body =
     [(''title'', PStr t), (''authors'', PList []), (''abstract'', PStr a)]"
  by (simp add: extract_metadata_def Let_def dict_set_def split: option.splits prod.splits)

subsection \<open>What a successful run leaves on disk\<close>

lemma save_document_writes:
  assumes "save_document env ip op extracted = (True, w')"
  shows "\<exists>body. clean_text env body \<noteq> [] \<and>
           files w' (replace op ''.txt'' ''_metadata.json'') =
             Some (JsonFile (PDict (extract_metadata env (clean_text env body)))) \<and>
           files w' op =
             Some (if replace op ''.txt'' ''_metadata.json'' = op
                   then JsonFile (PDict (extract_metadata env (clean_text env body)))
                   else TextFile (clean_text env body))"
proof -
  obtain t w0 where ex: "extracted = (t, w0)" by (cases extracted)
  from assms ex obtain body where t: "t = Some body"
    by (cases t) (auto simp: save_document_def)
  let ?c = "clean_text env body"
  let ?mp = "replace op ''.txt'' ''_metadata.json''"
  let ?md = "JsonFile (PDict (extract_metadata env ?c))"
  from assms ex t have ne: "?c \<noteq> []"
    by (auto simp: save_document_def Let_def split: if_splits)
  from assms ex t ne obtain w1 w2 w3 where
    w2: "write_file env op (TextFile ?c) w1 = Inr w2" and
    w3: "write_file env ?mp ?md w2 = Inr w3" and
    fin: "files w' = files w3"
    by (auto simp: save_document_def Let_def document_failed_def files_say files_print_field
        split: sum.splits)
  from write_file_files[OF w2] write_file_files[OF w3] fin
  have "files w' = (files w1)(op \<mapsto> TextFile ?c, ?mp \<mapsto> ?md)" by simp
  then have "files w' ?mp = Some ?md \<and>
      files w' op = Some (if ?mp = op then ?md else TextFile ?c)" by simp
  with ne show ?thesis by blast
qed

lemma process_document_writes:
  assumes "process_document env ip op w = Some (True, w')"
  shows "\<exists>body. clean_text env body \<noteq> [] \<and>
           files w' (replace op ''.txt'' ''_metadata.json'') =
             Some (JsonFile (PDict (extract_metadata env (clean_text env body)))) \<and>
           files w' op =
             Some (if replace op ''.txt'' ''_metadata.json'' = op
                   then JsonFile (PDict (extract_metadata env (clean_text env body)))
                   else TextFile (clean_text env body))"
proof -
  from assms obtain extracted where "save_document env ip op extracted = (True, w')"
    by (auto simp: process_document_def Let_def split: if_splits)
  then show ?thesis by (rule save_document_writes)
qed

subsection \<open>Sample runs\<close>

lemma sample_run_txt:
  "\<exists>w'. process_document sample_extractor_env ''in/paper.txt'' ''out/paper.txt'' sample_world
         = Some (True, w')"
proof -
  have "case process_document sample_extractor_env ''in/paper.txt'' ''out/paper.txt'' sample_world
        of None \<Rightarrow> False | Some (ok, w') \<Rightarrow> ok"
    by code_simp
  then show ?thesis by (auto split: option.splits prod.splits)
qed

lemma sample_run_no_txt:
  "\<exists>w'. process_document sample_extractor_env ''in/paper.txt'' ''out/paper'' sample_world
         = Some (True, w')"
proof -
  have "case process_document sample_extractor_env ''in/paper.txt'' ''out/paper'' sample_world
        of None \<Rightarrow> False | Some (ok, w') \<Rightarrow> ok"
    by code_simp
  then show ?thesis by (auto split: option.splits prod.splits)
qed

subsection \<open>The retry after a failed import\<close>





section \<open>The claims about the extractor\<close>


text \<open>
  C10. Whatever the text, the dictionary \<open>extract_metadata\<close> returns has the empty list
  under \<open>authors\<close>, and so has the metadata file of every successful run.
\<close>

theorem authors_always_empty:
  "dict_get (extract_metadata env body) ''authors'' PNone = PList [] \<and>
   (process_document env input_path output_path w = Some (True, w') \<longrightarrow>
      (\<exists>metadata.
         files w' (replace output_path ''.txt'' ''_metadata.json'') = Some (JsonFile (PDict metadata)) \<and>
         dict_get metadata ''authors'' PNone = PList []))"
proof -
  have authors: "dict_get (extract_metadata env b) ''authors'' PNone = PList []" for b
    using extract_metadata_shape[of env b] by (auto simp: dict_get_def)
  show ?thesis
  proof (intro conjI impI)
    show "dict_get (extract_metadata env body) ''authors'' PNone = PList []" by (rule authors)
  next
    assume "process_document env input_path output_path w = Some (True, w')"
    from process_document_writes[OF this] authors show
      "\<exists>metadata.
         files w' (replace output_path ''.txt'' ''_metadata.json'') = Some (JsonFile (PDict metadata)) \<and>
         dict_get metadata ''authors'' PNone = PList []"
      by blast
  qed
qed

theorem authors_always_empty_witness:
  "dict_get (extract_metadata sample_extractor_env ''Deep Learning for Graphs'') ''authors'' PNone
     = PList [] \<and>
   (\<exists>w'. process_document sample_extractor_env ''in/paper.txt'' ''out/paper.txt'' sample_world
            = Some (True, w') \<and>
      (\<exists>metadata.
         files w' (replace ''out/paper.txt'' ''.txt'' ''_metadata.json'')
           = Some (JsonFile (PDict metadata)) \<and>
         dict_get metadata ''authors'' PNone = PList []))"
proof -
  from sample_run_txt obtain w' where
    run: "process_document sample_extractor_env ''in/paper.txt'' ''out/paper.txt'' sample_world
            = Some (True, w')" ..
  from authors_always_empty
    [of sample_extractor_env "''Deep Learning for Graphs''" "''in/paper.txt''" "''out/paper.txt''"
        sample_world w'] run
  show ?thesis by blast
qed



text \<open>
  C8. An output path without \<open>.txt\<close> in it is its own metadata path. A run that reports
  success has then written the metadata over the text: the output path holds the JSON
  object and not the extracted text.
\<close>

theorem metadata_overwrites_text:
  assumes "\<not> contains output_path ''.txt''"
  shows "replace output_path ''.txt'' ''_metadata.json'' = output_path \<and>
         (\<forall>env input_path w w'.
            process_document env input_path output_path w = Some (True, w') \<longrightarrow>
            (\<exists>body. clean_text env body \<noteq> [] \<and>
               files w' output_path =
                 Some (JsonFile (PDict (extract_metadata env (clean_text env body)))) \<and>
               files w' output_path \<noteq> Some (TextFile (clean_text env body))))"
proof (intro conjI allI impI)
  show same: "replace output_path ''.txt'' ''_metadata.json'' = output_path"
    using assms by (rule replace_absent)
  fix env input_path w w'
  assume "process_document env input_path output_path w = Some (True, w')"
  from process_document_writes[OF this] same
  show "\<exists>body. clean_text env body \<noteq> [] \<and>
          files w' output_path =
            Some (JsonFile (PDict (extract_metadata env (clean_text env body)))) \<and>
          files w' output_path \<noteq> Some (TextFile (clean_text env body))"
    by auto
qed

theorem metadata_overwrites_text_witness:
  "\<not> contains ''out/paper'' ''.txt'' \<and>
   replace ''out/paper'' ''.txt'' ''_metadata.json'' = ''out/paper'' \<and>
   (\<exists>w'. process_document sample_extractor_env ''in/paper.txt'' ''out/paper'' sample_world
            = Some (True, w') \<and>
      (\<exists>body. clean_text sample_extractor_env body \<noteq> [] \<and>
         files w' ''out/paper'' =
           Some (JsonFile (PDict (extract_metadata sample_extractor_env
                                    (clean_text sample_extractor_env body)))) \<and>
         files w' ''out/paper'' \<noteq> Some (TextFile (clean_text sample_extractor_env body))))"
proof -
  have absent: "\<not> contains ''out/paper'' ''.txt''"
    by (simp add: startswith_def)
  from sample_run_no_txt obtain w' where
    run: "process_document sample_extractor_env ''in/paper.txt'' ''out/paper'' sample_world
            = Some (True, w')" ..
  from metadata_overwrites_text[OF absent] run absent show ?thesis by blast
qed

section \<open>Properties of the analyzers\<close>

lemma files_run: "files (snd (run r w)) = files w"
proof -
  have "files (foldl (\<lambda>w line. say line w) w ls) = files w" for ls
    by (induction ls arbitrary: w) (simp_all add: files_say)
  then show ?thesis by (simp add: run_def)
qed

lemma save_analysis_files:
  "save_analysis env op d w = Inr w' \<Longrightarrow> files w' op = Some (JsonFile (PDict d))"
  by (auto simp: save_analysis_def write_file_files split: sum.splits)

lemma analyze_text_success:
  assumes "analyze_text env body tp op ptp w = Inr (ok, w')"
  shows "ok \<and> (\<exists>summary topics suggested date.
           files w' op = Some (JsonFile (PDict
             [(''summary'', PStr summary), (''extractedTopics'', PList topics),
              (''suggestedTopics'', PList suggested), (''analysisDate'', PStr date)])))"
proof -
  obtain summary topics suggested w1 where
    c: "collect_analysis env body ptp w = ((summary, topics, suggested), w1)"
    by (metis prod.exhaust)
  from assms c obtain date where d: "analysis_date env tp w1 = Inr date"
    by (cases "analysis_date env tp w1") (simp_all add: analyze_text_def)
  then obtain dt where dt: "date = PStr dt"
    by (auto simp: analysis_date_def split: if_splits)
  let ?d = "[(''summary'', PStr summary), (''extractedTopics'', PList topics),
              (''suggestedTopics'', PList suggested), (''analysisDate'', date)]"
  from assms c d obtain w2 where s: "save_analysis env op ?d w1 = Inr w2"
    by (cases "save_analysis env op ?d w1") (simp_all add: analyze_text_def)
  from assms c d s have ok: "ok" and fin: "files w' = files w2"
    by (auto simp: analyze_text_def files_say)
  from save_analysis_files[OF s] fin dt ok show ?thesis by auto
qed

lemma analyze_paper_success:
  assumes "analyze_paper env tp op ptp w = (True, w')"
  shows "\<exists>summary topics suggested date.
           files w' op = Some (JsonFile (PDict
             [(''summary'', PStr summary), (''extractedTopics'', PList topics),
              (''suggestedTopics'', PList suggested), (''analysisDate'', PStr date)]))"
proof -
  from assms have t: "analyze_paper_try env tp op ptp w = Inr (True, w')"
    by (cases "analyze_paper_try env tp op ptp w") (auto simp: analyze_paper_def)
  then obtain w1 where i: "install_dependencies env w = Inr w1"
    by (cases "install_dependencies env w") (simp_all add: analyze_paper_try_def)
  from t i obtain body where r: "read_text env tp w1 = Inr body"
    by (cases "read_text env tp w1") (simp_all add: analyze_paper_try_def)
  from t i r have "analyze_text env body tp op ptp w1 = Inr (True, w')"
    by (simp add: analyze_paper_try_def split: if_splits)
  from analyze_text_success[OF this] show ?thesis by simp
qed

lemma openai_log_success:
  "openai_log env d suggested op w = Inr (ok, w') \<Longrightarrow> ok \<and> files w' = files w"
  by (auto simp: openai_log_def Let_def files_say split: option.splits)

lemma openai_save_success:
  assumes "openai_save env result suggested tp op w = Inr (ok, w')"
  shows "ok \<and> (\<exists>summary topics areas date.
           files w' op = Some (JsonFile (PDict
             [(''summary'', summary), (''extractedTopics'', topics),
              (''suggestedTopics'', PList suggested), (''suggestedAreas'', areas),
              (''analysisDate'', PStr date), (''analyzedWith'', PStr ''OpenAI'')])))"
proof -
  from assms obtain d where r: "result = PDict d"
    by (cases result) (simp_all add: openai_save_def)
  from assms r obtain date where dd: "analysis_date env tp w = Inr date"
    by (cases "analysis_date env tp w") (simp_all add: openai_save_def)
  then obtain dt where dt: "date = PStr dt"
    by (auto simp: analysis_date_def split: if_splits)
  let ?d = "[(''summary'', dict_get d ''summary'' (PStr [])),
             (''extractedTopics'', dict_get d ''extractedTopics'' (PList [])),
             (''suggestedTopics'', PList suggested),
             (''suggestedAreas'', dict_get d ''suggestedAreas'' (PList [])),
             (''analysisDate'', date),
             (''analyzedWith'', PStr ''OpenAI'')]"
  from assms r dd obtain w2 where s: "save_analysis env op ?d w = Inr w2"
    by (cases "save_analysis env op ?d w") (simp_all add: openai_save_def)
  from assms r dd s have "openai_log env d suggested op w2 = Inr (ok, w')"
    by (simp add: openai_save_def)
  from openai_log_success[OF this] save_analysis_files[OF s] dt show ?thesis by auto
qed

lemma openai_report_success:
  assumes "openai_report env client result tp op ptp w = Inr (ok, w')"
  shows "ok \<and> (\<exists>summary topics suggested areas date.
           files w' op = Some (JsonFile (PDict
             [(''summary'', summary), (''extractedTopics'', topics),
              (''suggestedTopics'', PList suggested), (''suggestedAreas'', areas),
              (''analysisDate'', PStr date), (''analyzedWith'', PStr ''OpenAI'')])))"
proof -
  obtain predefined w1 where l: "load_predefined_topics env ptp w = (predefined, w1)"
    by (metis prod.exhaust)
  from assms l obtain suggested w2 where
    g: "openai_suggestions env client result predefined w1 = Inr (suggested, w2)"
    by (cases "openai_suggestions env client result predefined w1")
       (auto simp: openai_report_def)
  from assms l g have "openai_save env result suggested tp op w2 = Inr (ok, w')"
    by (simp add: openai_report_def)
  from openai_save_success[OF this] show ?thesis by blast
qed

lemma analyze_paper_openai_cases:
  assumes "analyze_paper_openai env tp op ptp w = (True, w')"
  shows "(\<exists>w1. analyze_paper env tp op ptp w1 = (True, w')) \<or>
         (\<exists>client result w1. openai_report env client result tp op ptp w1 = Inr (True, w'))"
proof (cases "analyze_paper_openai_try env tp op ptp w")
  case (Inl failure)
  obtain e w1 where "failure = (e, w1)" by (cases failure)
  with Inl assms show ?thesis by (auto simp: analyze_paper_openai_def)
next
  case (Inr result)
  with assms have t: "analyze_paper_openai_try env tp op ptp w = Inr (True, w')"
    by (simp add: analyze_paper_openai_def)
  obtain c w0 where s: "setup_openai env w = (c, w0)" by (metis prod.exhaust)
  show ?thesis
  proof (cases c)
    case None
    with t s show ?thesis by (auto simp: analyze_paper_openai_try_def)
  next
    case (Some client)
    from t s Some obtain body where r: "read_text env tp w0 = Inr body"
      by (cases "read_text env tp w0") (simp_all add: analyze_paper_openai_try_def)
    obtain res w2 where a: "analyze_with_openai env body client
        (say (''Analyzing text with OpenAI ('' @ show_nat (length body) @ '' characters)...'') w0)
        = (res, w2)"
      by (metis prod.exhaust)
    from t s Some r a show ?thesis
      by (auto simp: analyze_paper_openai_try_def Let_def split: if_splits)
  qed
qed


subsection \<open>Sample runs of the analyzers\<close>

lemma local_run:
  "case analyze_paper sample_openai_env ''in/paper.txt'' ''out/analysis.json'' None sample_world
   of (ok, w') \<Rightarrow> ok"
  by code_simp

lemma openai_run_no_key:
  "case analyze_paper_openai sample_openai_env ''in/paper.txt'' ''out/analysis.json'' None sample_world
   of (ok, w') \<Rightarrow> ok"
  by code_simp

lemma openai_run_answer:
  "case analyze_paper_openai answering_openai_env ''in/paper.txt'' ''out/analysis.json'' None sample_world
   of (ok, w') \<Rightarrow> ok"
  by code_simp

section \<open>Properties of the style transfer\<close>

lemma select_vangogh: "select_style ''vangogh'' = Vangogh"
  by code_simp

lemma select_unknown:
  "lower style \<notin> set (map fst style_functions) \<Longrightarrow> select_style style = Vangogh"
  by (simp add: select_style_def map_of_eq_None_iff[THEN iffD2] split: option.splits)

lemma process_image_try_style:
  assumes "select_style style = select_style style'"
  shows "(case process_image_try env ip op style w of Inl f \<Rightarrow> Inl f | Inr w' \<Rightarrow> Inr (files w'))
       = (case process_image_try env ip op style' w of Inl f \<Rightarrow> Inl f | Inr w' \<Rightarrow> Inr (files w'))"
  using assms
  by (simp add: process_image_try_def files_say split: sum.splits)

lemma process_image_returns:
  assumes "process_image env ip op style w = (None, w')"
  shows "\<exists>img painted. load_image env ip w = Inr img \<and>
           apply_style env (select_style style) img = Inr painted \<and>
           files w' op = Some (JpegFile painted) \<and>
           stdout w' = stdout w @ [''Successfully processed image with '' @ style @ '' style'',
                                   ''Output saved to: '' @ op]"
proof -
  from assms obtain wa where t: "process_image_try env ip op style w = Inr wa" and "wa = w'"
    by (cases "process_image_try env ip op style w") (auto simp: process_image_def)
  then have t: "process_image_try env ip op style w = Inr w'" by simp
  then obtain img where l: "load_image env ip w = Inr img"
    by (cases "load_image env ip w") (simp_all add: process_image_try_def)
  from t l obtain painted where a: "apply_style env (select_style style) img = Inr painted"
    by (cases "apply_style env (select_style style) img") (simp_all add: process_image_try_def)
  from t l a obtain w1 where m: "makedirs env (dirname op) w = Inr w1"
    by (cases "makedirs env (dirname op) w") (simp_all add: process_image_try_def)
  from t l a m obtain w2 where wr: "write_file env op (JpegFile painted) w1 = Inr w2"
    by (cases "write_file env op (JpegFile painted) w1") (simp_all add: process_image_try_def)
  from t l a m wr have w': "w' = say (''Output saved to: '' @ op)
        (say (''Successfully processed image with '' @ style @ '' style'') w2)"
    by (simp add: process_image_try_def)
  have "stdout w1 = stdout w" using m
    by (auto simp: makedirs_def split: if_splits option.splits content.splits)
  moreover have "stdout w2 = stdout w1" using wr
    by (auto simp: write_file_def split: if_splits option.splits)
  ultimately have "stdout w' = stdout w @ [''Successfully processed image with '' @ style @ '' style'',
                                   ''Output saved to: '' @ op]"
    using w' by (simp add: say_def)
  moreover have "files w' op = Some (JpegFile painted)"
    using w' write_file_files[OF wr] by (simp add: files_say)
  ultimately show ?thesis using l a by blast
qed

text \<open>
  C9. A style whose lower-case form is none of the seven names is no error:
  \<open>process_image\<close> takes the Van Gogh filter, and its outcome and the files it leaves
  are those of the style \<open>vangogh\<close>. When it returns, the output path holds the JPEG
  of the Van Gogh filter's image and the two lines of a success were printed, with the
  style as it was given.
\<close>

theorem unknown_style_applies_vangogh:
  assumes "lower style \<notin> set (map fst style_functions)"
  shows "select_style style = Vangogh \<and>
         fst (process_image env input_path output_path style w)
           = fst (process_image env input_path output_path ''vangogh'' w) \<and>
         files (snd (process_image env input_path output_path style w))
           = files (snd (process_image env input_path output_path ''vangogh'' w)) \<and>
         (\<forall>w'. process_image env input_path output_path style w = (None, w') \<longrightarrow>
            (\<exists>img painted. load_image env input_path w = Inr img \<and>
               apply_style env Vangogh img = Inr painted \<and>
               files w' output_path = Some (JpegFile painted) \<and>
               stdout w' = stdout w @ [''Successfully processed image with '' @ style @ '' style'',
                                       ''Output saved to: '' @ output_path]))"
proof -
  have sel: "select_style style = Vangogh" using assms by (rule select_unknown)
  then have same: "select_style style = select_style ''vangogh''" by (simp add: select_vangogh)
  note eq = process_image_try_style[OF same, of env input_path output_path w]
  have r: "fst (process_image env input_path output_path style w)
           = fst (process_image env input_path output_path ''vangogh'' w)"
    using eq by (auto simp: process_image_def split: sum.splits)
  have f: "files (snd (process_image env input_path output_path style w))
           = files (snd (process_image env input_path output_path ''vangogh'' w))"
    using eq by (auto simp: process_image_def files_say split: sum.splits)
  have "\<exists>img painted. load_image env input_path w = Inr img \<and>
               apply_style env Vangogh img = Inr painted \<and>
               files w' output_path = Some (JpegFile painted) \<and>
               stdout w' = stdout w @ [''Successfully processed image with '' @ style @ '' style'',
                                       ''Output saved to: '' @ output_path]"
    if "process_image env input_path output_path style w = (None, w')" for w'
    using process_image_returns[OF that] sel by simp
  with sel r f show ?thesis by blast
qed

lemma cubism_run:
  "fst (process_image sample_style_env ''in/photo.jpg'' ''out/photo.jpg'' ''Cubism'' sample_gallery) = None"
  by code_simp

theorem unknown_style_applies_vangogh_witness:
  "lower ''Cubism'' \<notin> set (map fst style_functions) \<and>
   select_style ''Cubism'' = Vangogh \<and>
   (\<exists>w'. process_image sample_style_env ''in/photo.jpg'' ''out/photo.jpg'' ''Cubism'' sample_gallery
            = (None, w') \<and>
      (\<exists>img painted. load_image sample_style_env ''in/photo.jpg'' sample_gallery = Inr img \<and>
         apply_style sample_style_env Vangogh img = Inr painted \<and>
         files w' ''out/photo.jpg'' = Some (JpegFile painted) \<and>
         stdout w' = stdout sample_gallery @
           [''Successfully processed image with '' @ ''Cubism'' @ '' style'',
            ''Output saved to: '' @ ''out/photo.jpg'']))"
proof -
  have unknown: "lower ''Cubism'' \<notin> set (map fst style_functions)"
    by code_simp
  obtain w' where
    run: "process_image sample_style_env ''in/photo.jpg'' ''out/photo.jpg'' ''Cubism'' sample_gallery
            = (None, w')"
    using cubism_run by (metis prod.collapse)
  from unknown_style_applies_vangogh
    [OF unknown, of sample_style_env "''in/photo.jpg''" "''out/photo.jpg''" sample_gallery]
    run unknown
  show ?thesis by blast
qed

section \<open>The claims about the command lines\<close>

text \<open>
  C5, as stated, fails for \<open>style_transfer.py\<close>: called with the two paths and no
  style it prints its usage and exits with status 1.
\<close>

theorem style_argument_is_required:
  "style_transfer_main sample_style_env
     [''style_transfer.py'', ''in/photo.jpg'', ''out/photo.jpg''] sample_gallery
   = (1, say ''Available styles: vangogh, picasso, monet, abstract, dali, warhol, kandinsky''
          (say ''Usage: python style_transfer.py <input_path> <output_path> <style>''
             sample_gallery))"
  by (simp add: style_transfer_main_def)

text \<open>
  C5, amended. \<open>topic_analyzer.py\<close> and \<open>openai_analyzer.py\<close> called with the two
  paths only go on to the analysis, with no topics file; \<open>style_transfer.py\<close> called
  with any number of arguments other than three prints its usage and exits with status 1.
\<close>

theorem optional_topics_required_style:
  "(length argv = 3 \<longrightarrow>
      topic_analyzer_main aenv argv w =
        (exit_code (fst (analyze_paper aenv (argv ! 1) (argv ! 2) None w)),
         snd (analyze_paper aenv (argv ! 1) (argv ! 2) None w)) \<and>
      openai_analyzer_main oenv argv w =
        (exit_code (fst (analyze_paper_openai oenv (argv ! 1) (argv ! 2) None w)),
         snd (analyze_paper_openai oenv (argv ! 1) (argv ! 2) None w))) \<and>
   (length argv \<noteq> 4 \<longrightarrow>
      style_transfer_main senv argv g =
        (1, say ''Available styles: vangogh, picasso, monet, abstract, dali, warhol, kandinsky''
              (say ''Usage: python style_transfer.py <input_path> <output_path> <style>'' g)))"
  by (simp add: topic_analyzer_main_def openai_analyzer_main_def optional_topics_path_def
      style_transfer_main_def split: prod.splits)

theorem optional_topics_required_style_witness:
  "topic_analyzer_main sample_openai_env
      [''topic_analyzer.py'', ''in/paper.txt'', ''out/analysis.json''] sample_world =
     (exit_code (fst (analyze_paper sample_openai_env ''in/paper.txt'' ''out/analysis.json'' None
                        sample_world)),
      snd (analyze_paper sample_openai_env ''in/paper.txt'' ''out/analysis.json'' None sample_world)) \<and>
   openai_analyzer_main sample_openai_env
      [''openai_analyzer.py'', ''in/paper.txt'', ''out/analysis.json''] sample_world =
     (exit_code (fst (analyze_paper_openai sample_openai_env ''in/paper.txt'' ''out/analysis.json''
                        None sample_world)),
      snd (analyze_paper_openai sample_openai_env ''in/paper.txt'' ''out/analysis.json'' None
             sample_world)) \<and>
   style_transfer_main sample_style_env
      [''style_transfer.py'', ''in/photo.jpg'', ''out/photo.jpg''] sample_gallery =
     (1, say ''Available styles: vangogh, picasso, monet, abstract, dali, warhol, kandinsky''
           (say ''Usage: python style_transfer.py <input_path> <output_path> <style>''
              sample_gallery))"
proof -
  have a: "length [''topic_analyzer.py'', ''in/paper.txt'', ''out/analysis.json''] = 3" by simp
  have b: "length [''openai_analyzer.py'', ''in/paper.txt'', ''out/analysis.json''] = 3" by simp
  have c: "length [''style_transfer.py'', ''in/photo.jpg'', ''out/photo.jpg''] \<noteq> 4" by simp
  from optional_topics_required_style
      [of "[''topic_analyzer.py'', ''in/paper.txt'', ''out/analysis.json'']"
          sample_openai_env sample_world sample_openai_env sample_style_env sample_gallery] a
  have t: "topic_analyzer_main sample_openai_env
      [''topic_analyzer.py'', ''in/paper.txt'', ''out/analysis.json''] sample_world =
     (exit_code (fst (analyze_paper sample_openai_env ''in/paper.txt'' ''out/analysis.json'' None
                        sample_world)),
      snd (analyze_paper sample_openai_env ''in/paper.txt'' ''out/analysis.json'' None sample_world))"
    by simp
  from optional_topics_required_style
      [of "[''openai_analyzer.py'', ''in/paper.txt'', ''out/analysis.json'']"
          sample_openai_env sample_world sample_openai_env sample_style_env sample_gallery] b
  have oa: "openai_analyzer_main sample_openai_env
      [''openai_analyzer.py'', ''in/paper.txt'', ''out/analysis.json''] sample_world =
     (exit_code (fst (analyze_paper_openai sample_openai_env ''in/paper.txt'' ''out/analysis.json''
                        None sample_world)),
      snd (analyze_paper_openai sample_openai_env ''in/paper.txt'' ''out/analysis.json'' None
             sample_world))"
    by simp
  from optional_topics_required_style
      [of "[''style_transfer.py'', ''in/photo.jpg'', ''out/photo.jpg'']"
          sample_openai_env sample_world sample_openai_env sample_style_env sample_gallery] c
  have s: "style_transfer_main sample_style_env
      [''style_transfer.py'', ''in/photo.jpg'', ''out/photo.jpg''] sample_gallery =
     (1, say ''Available styles: vangogh, picasso, monet, abstract, dali, warhol, kandinsky''
           (say ''Usage: python style_transfer.py <input_path> <output_path> <style>''
              sample_gallery))"
    by simp
  from t oa s show ?thesis by blast
qed


section \<open>The claims about the written files\<close>



lemma analyze_paper_openai_success:
  assumes "analyze_paper_openai env tp op ptp w = (True, w')"
  shows "\<exists>analysis suggested.
           files w' op = Some (JsonFile (PDict analysis)) \<and>
           set [''summary'', ''extractedTopics'', ''suggestedTopics'', ''analysisDate'']
             \<subseteq> set (map fst analysis) \<and>
           map_of analysis ''suggestedTopics'' = Some (PList suggested)"
  using analyze_paper_openai_cases[OF assms]
proof
  assume "\<exists>w1. analyze_paper env tp op ptp w1 = (True, w')"
  then obtain w1 where "analyze_paper env tp op ptp w1 = (True, w')" ..
  from analyze_paper_success[OF this] obtain summary topics suggested date where
    "files w' op = Some (JsonFile (PDict
             [(''summary'', PStr summary), (''extractedTopics'', PList topics),
              (''suggestedTopics'', PList suggested), (''analysisDate'', PStr date)]))"
    by blast
  then show ?thesis by (intro exI[of _ "[(''summary'', PStr summary), (''extractedTopics'', PList topics),
              (''suggestedTopics'', PList suggested), (''analysisDate'', PStr date)]"] exI[of _ suggested]) simp
next
  assume "\<exists>client result w1. openai_report env client result tp op ptp w1 = Inr (True, w')"
  then obtain client result w1 where
    "openai_report env client result tp op ptp w1 = Inr (True, w')" by blast
  from openai_report_success[OF this] obtain summary topics suggested areas date where
    "files w' op = Some (JsonFile (PDict
             [(''summary'', summary), (''extractedTopics'', topics),
              (''suggestedTopics'', PList suggested), (''suggestedAreas'', areas),
              (''analysisDate'', PStr date), (''analyzedWith'', PStr ''OpenAI'')]))"
    by blast
  then show ?thesis by (intro exI[of _ "[(''summary'', summary), (''extractedTopics'', topics),
              (''suggestedTopics'', PList suggested), (''suggestedAreas'', areas),
              (''analysisDate'', PStr date), (''analyzedWith'', PStr ''OpenAI'')]"] exI[of _ suggested]) simp
qed


lemma local_run_true:
  "\<exists>w'. analyze_paper sample_openai_env ''in/paper.txt'' ''out/analysis.json'' None sample_world
          = (True, w')"
  using local_run by (auto split: prod.splits)

lemma openai_run_no_key_true:
  "\<exists>w'. analyze_paper_openai sample_openai_env ''in/paper.txt'' ''out/analysis.json'' None
            sample_world = (True, w')"
  using openai_run_no_key by (auto split: prod.splits)

lemma openai_run_answer_true:
  "\<exists>w'. analyze_paper_openai answering_openai_env ''in/paper.txt'' ''out/analysis.json'' None
            sample_world = (True, w')"
  using openai_run_answer by (auto split: prod.splits)



text \<open>
  C2. The object an analyzer that reports success has written has the keys \<open>summary\<close>,
  \<open>extractedTopics\<close>, \<open>suggestedTopics\<close> and \<open>analysisDate\<close>, and a list under
  \<open>suggestedTopics\<close>: for every topics path, given or not, loadable or not, and on
  the paths of the LLM-based analyzer that end in the local one.
\<close>

theorem analysis_has_documented_keys:
  "(analyze_paper aenv text_path output_path topics_path a = (True, a') \<longrightarrow>
      (\<exists>analysis suggested.
         files a' output_path = Some (JsonFile (PDict analysis)) \<and>
         map fst analysis = [''summary'', ''extractedTopics'', ''suggestedTopics'', ''analysisDate''] \<and>
         map_of analysis ''suggestedTopics'' = Some (PList suggested))) \<and>
   (analyze_paper_openai oenv paper_path result_path list_path b = (True, b') \<longrightarrow>
      (\<exists>analysis suggested.
         files b' result_path = Some (JsonFile (PDict analysis)) \<and>
         set [''summary'', ''extractedTopics'', ''suggestedTopics'', ''analysisDate'']
           \<subseteq> set (map fst analysis) \<and>
         map_of analysis ''suggestedTopics'' = Some (PList suggested)))"
proof (intro conjI impI)
  assume "analyze_paper aenv text_path output_path topics_path a = (True, a')"
  from analyze_paper_success[OF this] obtain summary topics suggested date where
    "files a' output_path = Some (JsonFile (PDict
             [(''summary'', PStr summary), (''extractedTopics'', PList topics),
              (''suggestedTopics'', PList suggested), (''analysisDate'', PStr date)]))"
    by blast
  then show "\<exists>analysis suggested.
         files a' output_path = Some (JsonFile (PDict analysis)) \<and>
         map fst analysis = [''summary'', ''extractedTopics'', ''suggestedTopics'', ''analysisDate''] \<and>
         map_of analysis ''suggestedTopics'' = Some (PList suggested)"
    by (intro exI[of _ "[(''summary'', PStr summary), (''extractedTopics'', PList topics),
              (''suggestedTopics'', PList suggested), (''analysisDate'', PStr date)]"]
          exI[of _ suggested]) simp
next
  assume "analyze_paper_openai oenv paper_path result_path list_path b = (True, b')"
  then show "\<exists>analysis suggested.
         files b' result_path = Some (JsonFile (PDict analysis)) \<and>
         set [''summary'', ''extractedTopics'', ''suggestedTopics'', ''analysisDate'']
           \<subseteq> set (map fst analysis) \<and>
         map_of analysis ''suggestedTopics'' = Some (PList suggested)"
    by (rule analyze_paper_openai_success)
qed

theorem analysis_has_documented_keys_witness:
  "(\<exists>a'. analyze_paper sample_openai_env ''in/paper.txt'' ''out/analysis.json'' None sample_world
            = (True, a') \<and>
      (\<exists>analysis suggested.
         files a' ''out/analysis.json'' = Some (JsonFile (PDict analysis)) \<and>
         map fst analysis = [''summary'', ''extractedTopics'', ''suggestedTopics'', ''analysisDate''] \<and>
         map_of analysis ''suggestedTopics'' = Some (PList suggested))) \<and>
   (\<exists>b'. analyze_paper_openai sample_openai_env ''in/paper.txt'' ''out/analysis.json'' None
            sample_world = (True, b') \<and>
      (\<exists>analysis suggested.
         files b' ''out/analysis.json'' = Some (JsonFile (PDict analysis)) \<and>
         set [''summary'', ''extractedTopics'', ''suggestedTopics'', ''analysisDate'']
           \<subseteq> set (map fst analysis) \<and>
         map_of analysis ''suggestedTopics'' = Some (PList suggested))) \<and>
   (\<exists>c'. analyze_paper_openai answering_openai_env ''in/paper.txt'' ''out/analysis.json'' None
            sample_world = (True, c') \<and>
      (\<exists>analysis suggested.
         files c' ''out/analysis.json'' = Some (JsonFile (PDict analysis)) \<and>
         set [''summary'', ''extractedTopics'', ''suggestedTopics'', ''analysisDate'']
           \<subseteq> set (map fst analysis) \<and>
         map_of analysis ''suggestedTopics'' = Some (PList suggested)))"
proof -
  from local_run_true obtain a' where
    a: "analyze_paper sample_openai_env ''in/paper.txt'' ''out/analysis.json'' None sample_world
          = (True, a')" ..
  from openai_run_no_key_true obtain b' where
    b: "analyze_paper_openai sample_openai_env ''in/paper.txt'' ''out/analysis.json'' None
          sample_world = (True, b')" ..
  from openai_run_answer_true obtain c' where
    c: "analyze_paper_openai answering_openai_env ''in/paper.txt'' ''out/analysis.json'' None
          sample_world = (True, c')" ..
  note skipped = analysis_has_documented_keys
    [of sample_openai_env "''in/paper.txt''" "''out/analysis.json''" None sample_world a'
        sample_openai_env "''in/paper.txt''" "''out/analysis.json''" None sample_world b']
  note answered = analysis_has_documented_keys
    [of sample_openai_env "''in/paper.txt''" "''out/analysis.json''" None sample_world a'
        answering_openai_env "''in/paper.txt''" "''out/analysis.json''" None sample_world c']
  from skipped a have c1: "\<exists>analysis suggested.
         files a' ''out/analysis.json'' = Some (JsonFile (PDict analysis)) \<and>
         map fst analysis = [''summary'', ''extractedTopics'', ''suggestedTopics'', ''analysisDate''] \<and>
         map_of analysis ''suggestedTopics'' = Some (PList suggested)" by blast
  from skipped b have c2: "\<exists>analysis suggested.
         files b' ''out/analysis.json'' = Some (JsonFile (PDict analysis)) \<and>
         set [''summary'', ''extractedTopics'', ''suggestedTopics'', ''analysisDate'']
           \<subseteq> set (map fst analysis) \<and>
         map_of analysis ''suggestedTopics'' = Some (PList suggested)" by blast
  from answered c have c3: "\<exists>analysis suggested.
         files c' ''out/analysis.json'' = Some (JsonFile (PDict analysis)) \<and>
         set [''summary'', ''extractedTopics'', ''suggestedTopics'', ''analysisDate'']
           \<subseteq> set (map fst analysis) \<and>
         map_of analysis ''suggestedTopics'' = Some (PList suggested)" by blast
  show ?thesis
  proof (intro conjI)
    show "\<exists>a'. analyze_paper sample_openai_env ''in/paper.txt'' ''out/analysis.json'' None
            sample_world = (True, a') \<and>
      (\<exists>analysis suggested.
         files a' ''out/analysis.json'' = Some (JsonFile (PDict analysis)) \<and>
         map fst analysis = [''summary'', ''extractedTopics'', ''suggestedTopics'', ''analysisDate''] \<and>
         map_of analysis ''suggestedTopics'' = Some (PList suggested))"
      by (rule exI[of _ a'], rule conjI, rule a, rule c1)
    show "\<exists>b'. analyze_paper_openai sample_openai_env ''in/paper.txt'' ''out/analysis.json'' None
            sample_world = (True, b') \<and>
      (\<exists>analysis suggested.
         files b' ''out/analysis.json'' = Some (JsonFile (PDict analysis)) \<and>
         set [''summary'', ''extractedTopics'', ''suggestedTopics'', ''analysisDate'']
           \<subseteq> set (map fst analysis) \<and>
         map_of analysis ''suggestedTopics'' = Some (PList suggested))"
      by (rule exI[of _ b'], rule conjI, rule b, rule c2)
    show "\<exists>c'. analyze_paper_openai answering_openai_env ''in/paper.txt'' ''out/analysis.json'' None
            sample_world = (True, c') \<and>
      (\<exists>analysis suggested.
         files c' ''out/analysis.json'' = Some (JsonFile (PDict analysis)) \<and>
         set [''summary'', ''extractedTopics'', ''suggestedTopics'', ''analysisDate'']
           \<subseteq> set (map fst analysis) \<and>
         map_of analysis ''suggestedTopics'' = Some (PList suggested))"
      by (rule exI[of _ c'], rule conjI, rule c, rule c3)
  qed
qed

section \<open>The claim about the fallback\<close>

lemma setup_without_key:
  "getenv env ''OPENAI_API_KEY'' = None \<Longrightarrow> fst (setup_openai env w) = None"
  by (simp add: setup_openai_def Let_def)

lemma analysis_request_fails:
  "chat_analysis env client (if 12000 < length body then take 12000 body @ ''...'' else body) = Inl e
   \<Longrightarrow> fst (analyze_with_openai env body client w) = PNone"
  by (simp add: analyze_with_openai_def Let_def)

text \<open>
  C1. When the client cannot be set up (no \<open>OPENAI_API_KEY\<close>, among others), when the
  analysis call gives no result (a value that is false in Python; a request that raises
  gives \<open>None\<close>), and when anything in the \<open>try\<close> block raises, \<open>analyze_paper_openai\<close>
  returns what \<open>analyze_paper\<close> returns for the same three paths, called in the state
  reached so far with one more line printed.
\<close>

theorem openai_failure_falls_back:
  "(fst (setup_openai env w) = None \<longrightarrow>
      analyze_paper_openai env text_path output_path topics_path w =
        analyze_paper env text_path output_path topics_path
          (say ''OpenAI client not available, falling back to local analysis''
             (snd (setup_openai env w)))) \<and>
   (setup_openai env w = (Some client, w0) \<and> read_text env text_path w0 = Inr body \<and>
    strip body \<noteq> [] \<and>
    \<not> truthy (fst (analyze_with_openai env body client
                     (say (''Analyzing text with OpenAI ('' @ show_nat (length body)
                            @ '' characters)...'') w0))) \<longrightarrow>
      analyze_paper_openai env text_path output_path topics_path w =
        analyze_paper env text_path output_path topics_path
          (say ''OpenAI analysis failed, falling back to local analysis''
             (snd (analyze_with_openai env body client
                     (say (''Analyzing text with OpenAI ('' @ show_nat (length body)
                            @ '' characters)...'') w0))))) \<and>
   (analyze_paper_openai_try env text_path output_path topics_path w = Inl (e, w1) \<longrightarrow>
      analyze_paper_openai env text_path output_path topics_path w =
        analyze_paper env text_path output_path topics_path
          (say (''Error in OpenAI analysis: '' @ exn_msg e) w1)) \<and>
   (getenv env ''OPENAI_API_KEY'' = None \<longrightarrow> fst (setup_openai env w) = None) \<and>
   (chat_analysis env client (if 12000 < length body then take 12000 body @ ''...'' else body)
      = Inl e \<longrightarrow>
      fst (analyze_with_openai env body client w) = PNone)"
proof (intro conjI impI)
  assume "fst (setup_openai env w) = None"
  then show "analyze_paper_openai env text_path output_path topics_path w =
        analyze_paper env text_path output_path topics_path
          (say ''OpenAI client not available, falling back to local analysis''
             (snd (setup_openai env w)))"
    by (cases "setup_openai env w")
       (simp add: analyze_paper_openai_def analyze_paper_openai_try_def)
next
  let ?w = "say (''Analyzing text with OpenAI ('' @ show_nat (length body)
                            @ '' characters)...'') w0"
  assume h: "setup_openai env w = (Some client, w0) \<and> read_text env text_path w0 = Inr body \<and>
    strip body \<noteq> [] \<and> \<not> truthy (fst (analyze_with_openai env body client ?w))"
  obtain r w2 where a: "analyze_with_openai env body client ?w = (r, w2)" by (metis prod.exhaust)
  with h show "analyze_paper_openai env text_path output_path topics_path w =
        analyze_paper env text_path output_path topics_path
          (say ''OpenAI analysis failed, falling back to local analysis''
             (snd (analyze_with_openai env body client ?w)))"
    by (simp add: analyze_paper_openai_def analyze_paper_openai_try_def Let_def)
next
  assume "analyze_paper_openai_try env text_path output_path topics_path w = Inl (e, w1)"
  then show "analyze_paper_openai env text_path output_path topics_path w =
        analyze_paper env text_path output_path topics_path
          (say (''Error in OpenAI analysis: '' @ exn_msg e) w1)"
    by (simp add: analyze_paper_openai_def)
next
  assume "getenv env ''OPENAI_API_KEY'' = None"
  then show "fst (setup_openai env w) = None" by (rule setup_without_key)
next
  assume "chat_analysis env client (if 12000 < length body then take 12000 body @ ''...'' else body)
      = Inl e"
  then show "fst (analyze_with_openai env body client w) = PNone" by (rule analysis_request_fails)
qed

lemma keyed_setup:
  "setup_openai keyed_openai_env w = (Some (Client ''sk-test'' None), w)"
  by (simp add: setup_openai_def keyed_openai_env_def sample_openai_env_def Let_def)

lemma keyed_reads_paper:
  "read_text keyed_openai_env ''in/paper.txt'' sample_world = Inr ''Deep Learning for Graphs''"
  by (simp add: read_text_def read_file_def decode_utf8_def sample_world_def
      keyed_openai_env_def sample_openai_env_def)

lemma paper_not_blank: "strip ''Deep Learning for Graphs'' \<noteq> []"
  by code_simp

lemma keyed_request_fails:
  "chat_analysis keyed_openai_env c b = Inl (OtherError ''Connection error.'')"
  by (simp add: keyed_openai_env_def sample_openai_env_def)

lemma keyed_missing_text:
  "analyze_paper_openai_try keyed_openai_env ''in/missing.txt'' ''out/analysis.json'' None sample_world
   = Inl (OSError ''[Errno 2] No such file or directory'', sample_world)"
proof -
  have "read_text keyed_openai_env ''in/missing.txt'' sample_world
        = Inl (OSError ''[Errno 2] No such file or directory'')"
    by (simp add: read_text_def read_file_def sample_world_def)
  then show ?thesis by (simp add: analyze_paper_openai_try_def keyed_setup)
qed

theorem openai_failure_falls_back_witness:
  "fst (setup_openai sample_openai_env sample_world) = None \<and>
   analyze_paper_openai sample_openai_env ''in/paper.txt'' ''out/analysis.json'' None sample_world =
     analyze_paper sample_openai_env ''in/paper.txt'' ''out/analysis.json'' None
       (say ''OpenAI client not available, falling back to local analysis''
          (snd (setup_openai sample_openai_env sample_world))) \<and>
   fst (analyze_with_openai keyed_openai_env ''Deep Learning for Graphs'' (Client ''sk-test'' None)
          (say (''Analyzing text with OpenAI ('' @ show_nat (length ''Deep Learning for Graphs'')
                 @ '' characters)...'') sample_world)) = PNone \<and>
   analyze_paper_openai keyed_openai_env ''in/paper.txt'' ''out/analysis.json'' None sample_world =
     analyze_paper keyed_openai_env ''in/paper.txt'' ''out/analysis.json'' None
       (say ''OpenAI analysis failed, falling back to local analysis''
          (snd (analyze_with_openai keyed_openai_env ''Deep Learning for Graphs''
                  (Client ''sk-test'' None)
                  (say (''Analyzing text with OpenAI ('' @ show_nat (length ''Deep Learning for Graphs'')
                         @ '' characters)...'') sample_world)))) \<and>
   analyze_paper_openai keyed_openai_env ''in/missing.txt'' ''out/analysis.json'' None sample_world =
     analyze_paper keyed_openai_env ''in/missing.txt'' ''out/analysis.json'' None
       (say (''Error in OpenAI analysis: '' @ exn_msg (OSError ''[Errno 2] No such file or directory''))
          sample_world)"
proof -
  let ?B = "''Deep Learning for Graphs''"
  let ?C = "Client ''sk-test'' None"
  let ?W = "say (''Analyzing text with OpenAI ('' @ show_nat (length ?B) @ '' characters)...'')
              sample_world"
  have nokey: "getenv sample_openai_env ''OPENAI_API_KEY'' = None"
    by (simp add: sample_openai_env_def)
  note unset = openai_failure_falls_back
    [where env = sample_openai_env and w = sample_world and text_path = "''in/paper.txt''"
       and output_path = "''out/analysis.json''" and topics_path = None]
  from unset nokey have a1: "fst (setup_openai sample_openai_env sample_world) = None" by blast
  with unset have a2:
    "analyze_paper_openai sample_openai_env ''in/paper.txt'' ''out/analysis.json'' None sample_world =
     analyze_paper sample_openai_env ''in/paper.txt'' ''out/analysis.json'' None
       (say ''OpenAI client not available, falling back to local analysis''
          (snd (setup_openai sample_openai_env sample_world)))" by blast
  note failing = openai_failure_falls_back
    [where env = keyed_openai_env and w = sample_world and text_path = "''in/paper.txt''"
       and output_path = "''out/analysis.json''" and topics_path = None
       and client = ?C and ?w0.0 = sample_world and body = ?B
       and e = "OtherError ''Connection error.''"]
  have b1: "fst (analyze_with_openai keyed_openai_env ?B ?C u) = PNone" for u
    using openai_failure_falls_back
      [where env = keyed_openai_env and w = u and client = ?C and body = ?B
         and e = "OtherError ''Connection error.''"]
      keyed_request_fails by blast
  then have falsy: "\<not> truthy (fst (analyze_with_openai keyed_openai_env ?B ?C ?W))" by simp
  from failing keyed_setup[of sample_world] keyed_reads_paper paper_not_blank falsy
  have b2: "analyze_paper_openai keyed_openai_env ''in/paper.txt'' ''out/analysis.json'' None
        sample_world =
     analyze_paper keyed_openai_env ''in/paper.txt'' ''out/analysis.json'' None
       (say ''OpenAI analysis failed, falling back to local analysis''
          (snd (analyze_with_openai keyed_openai_env ?B ?C ?W)))" by blast
  from openai_failure_falls_back
    [where env = keyed_openai_env and w = sample_world and text_path = "''in/missing.txt''"
       and output_path = "''out/analysis.json''" and topics_path = None
       and e = "OSError ''[Errno 2] No such file or directory''" and ?w1.0 = sample_world]
    keyed_missing_text
  have c1: "analyze_paper_openai keyed_openai_env ''in/missing.txt'' ''out/analysis.json'' None
        sample_world =
     analyze_paper keyed_openai_env ''in/missing.txt'' ''out/analysis.json'' None
       (say (''Error in OpenAI analysis: '' @ exn_msg (OSError ''[Errno 2] No such file or directory''))
          sample_world)" by blast
  show ?thesis
    by (rule conjI, rule a1, rule conjI, rule a2, rule conjI, rule b1, rule conjI, rule b2, rule c1)
qed

section \<open>The claim about the exit status\<close>










end
